theory Spec2Isabelle
  imports Complex_Main "HOL-Library.AList" "HOL-Library.Sublist"
begin

section \<open>Python strings\<close>

text \<open>
  The monitor's parsers are written with Python's string methods. Each method used by
  the source is given here as a function on \<open>string\<close>; a character is a code point
  below 256. Exceptions are values of \<open>py_error\<close>.
\<close>

datatype py_error =
  ValueError | IndexError | KeyError | TypeError | AttributeError | ZeroDivisionError
  | NodeNotFound | PredictError | Unmodelled

text \<open>\<^verbatim>\<open>str.isspace\<close> for one character (White_Space code points below 256).\<close>

definition is_space :: "char \<Rightarrow> bool" where
  "is_space c = (let n = of_char c :: nat in
      (9 \<le> n \<and> n \<le> 13) \<or> (28 \<le> n \<and> n \<le> 32) \<or> n = 133 \<or> n = 160)"

text \<open>\<^verbatim>\<open>s.strip()\<close>\<close>

definition strip :: "string \<Rightarrow> string" where
  "strip s = rev (dropWhile is_space (rev (dropWhile is_space s)))"

text \<open>\<^verbatim>\<open>s.split()\<close>: the maximal runs of non-whitespace characters.\<close>

fun split_ws_go :: "string \<Rightarrow> string \<Rightarrow> string list" where
  "split_ws_go acc [] = (if acc = [] then [] else [rev acc])"
| "split_ws_go acc (c # cs) =
     (if is_space c then (if acc = [] then split_ws_go [] cs else rev acc # split_ws_go [] cs)
      else split_ws_go (c # acc) cs)"

definition split_ws :: "string \<Rightarrow> string list" where
  "split_ws s = split_ws_go [] s"

text \<open>
  \<^verbatim>\<open>s.split(sep)\<close> is \<open>split_go sep [] s\<close>: cut at every occurrence of \<open>sep\<close>,
  scanning from the left, occurrences not overlapping. Every separator in the source is
  a non-empty literal.
\<close>

function split_go :: "string \<Rightarrow> string \<Rightarrow> string \<Rightarrow> string list" where
  "split_go sep acc [] = [rev acc]"
| "split_go sep acc (c # cs) =
     (if sep \<noteq> [] \<and> prefix sep (c # cs)
      then rev acc # split_go sep [] (drop (length sep) (c # cs))
      else split_go sep (c # acc) cs)"
  by pat_completeness auto
termination
  by (relation "measure (\<lambda>(sep, acc, s). length s)") (auto simp: neq_Nil_conv)

text \<open>\<^verbatim>\<open>sub in s\<close>\<close>

fun contains :: "string \<Rightarrow> string \<Rightarrow> bool" where
  "contains sub [] = (sub = [])"
| "contains sub (c # cs) = (prefix sub (c # cs) \<or> contains sub cs)"

text \<open>
  \<^verbatim>\<open>s.find(sub, start)\<close>: the lowest index \<open>i \<ge> start\<close> at which \<open>sub\<close> occurs in \<open>s\<close>;
  Python's \<open>-1\<close> is \<open>None\<close>.
\<close>

fun find_idx :: "string \<Rightarrow> string \<Rightarrow> nat option" where
  "find_idx sub [] = (if sub = [] then Some 0 else None)"
| "find_idx sub (c # cs) =
     (if prefix sub (c # cs) then Some 0 else map_option Suc (find_idx sub cs))"

definition find :: "string \<Rightarrow> string \<Rightarrow> nat \<Rightarrow> nat option" where
  "find s sub start =
     (if length s < start then None
      else map_option (\<lambda>i. start + i) (find_idx sub (drop start s)))"

text \<open>\<^verbatim>\<open>s[start:end]\<close> for \<open>0 \<le> start\<close> and \<open>0 \<le> end\<close>.\<close>

definition slice :: "string \<Rightarrow> nat \<Rightarrow> nat \<Rightarrow> string" where
  "slice s start end = take (end - start) (drop start s)"

text \<open>
  \<^verbatim>\<open>int(s)\<close> on a string: surrounding whitespace is stripped, one sign is allowed, then
  decimal digits, where single underscores may stand between digits. Anything else
  raises ValueError (\<open>None\<close>).
\<close>

definition is_digit :: "char \<Rightarrow> bool" where
  "is_digit c = (let n = of_char c :: nat in 48 \<le> n \<and> n \<le> 57)"

definition digit_val :: "char \<Rightarrow> nat" where
  "digit_val c = of_char c - 48"

definition digits_val :: "string \<Rightarrow> nat" where
  "digits_val ds = foldl (\<lambda>n c. 10 * n + digit_val c) 0 ds"

fun digit_groups :: "string list \<Rightarrow> bool" where
  "digit_groups [] = True"
| "digit_groups (g # gs) = (g \<noteq> [] \<and> list_all is_digit g \<and> digit_groups gs)"

definition py_nat :: "string \<Rightarrow> nat option" where
  "py_nat s =
     (let gs = split_go ''_'' [] s
      in if digit_groups gs then Some (digits_val (concat gs)) else None)"

definition py_int :: "string \<Rightarrow> int option" where
  "py_int s =
     (case strip s of
        [] \<Rightarrow> None
      | c # cs \<Rightarrow>
          if c = CHR ''-'' then map_option (\<lambda>n. - int n) (py_nat cs)
          else if c = CHR ''+'' then map_option int (py_nat cs)
          else map_option int (py_nat (c # cs)))"

text \<open>Dictionaries keep insertion order; \<^verbatim>\<open>{**a, **b}\<close> stores the items of \<open>b\<close> into \<open>a\<close>.\<close>

definition dict_merge :: "('k \<times> 'v) list \<Rightarrow> ('k \<times> 'v) list \<Rightarrow> ('k \<times> 'v) list" where
  "dict_merge a b = fold (\<lambda>(k, v). AList.update k v) b a"

section \<open>Telemetry monitor: parsers\<close>

subsection \<open>\<^verbatim>\<open>NetworkMonitor._parse_port_stats\<close>\<close>

text \<open>
  The loop over the comma-separated tokens of one side of a line. A token without
  \<open>=\<close> is passed over; a token with other than one \<open>=\<close> fails the unpacking
  \<^verbatim>\<open>key, value = ...\<close> (ValueError, which leaves the whole line); a value that is not an
  integer is passed over.
\<close>

fun parse_side :: "string \<Rightarrow> string list \<Rightarrow> (string \<times> int) list
    \<Rightarrow> py_error + (string \<times> int) list" where
  "parse_side pre [] stats = Inr stats"
| "parse_side pre (stat # rest) stats =
     (if contains ''='' stat then
        (case split_go ''='' [] (strip stat) of
           [key, val] \<Rightarrow>
             (case py_int val of
                Some n \<Rightarrow> parse_side pre rest (AList.update (pre @ key) n stats)
              | None \<Rightarrow> parse_side pre rest stats)
         | _ \<Rightarrow> Inl ValueError)
      else parse_side pre rest stats)"

text \<open>
  The body of the \<^verbatim>\<open>try\<close> for one candidate line: \<open>Inr None\<close> when the line has no colon
  (nothing is stored), \<open>Inr (Some (port, stats))\<close> for the entry stored, \<open>Inl e\<close> for the
  exception caught by \<^verbatim>\<open>except (ValueError, IndexError)\<close>.
\<close>

definition parse_port_line :: "string \<Rightarrow> py_error + (int \<times> (string \<times> int) list) option" where
  "parse_port_line line =
     (let parts = split_go '':'' [] line in
      if length parts \<ge> 2 then
        (case split_ws (parts ! 0) of
           [] \<Rightarrow> Inl IndexError
         | ws \<Rightarrow>
           (case py_int (last ws) of
              None \<Rightarrow> Inl ValueError
            | Some port_num \<Rightarrow>
                let stats_part = parts ! 1;
                    rx = (if contains ''rx'' stats_part
                          then parse_side ''rx_''
                                 (split_go '','' [] (split_go ''tx'' [] stats_part ! 0)) []
                          else Inr [])
                in (case rx of
                      Inl e \<Rightarrow> Inl e
                    | Inr rx_stats \<Rightarrow>
                        let tx = (if contains ''tx'' stats_part
                                  then parse_side ''tx_''
                                         (split_go '','' [] (split_go ''tx'' [] stats_part ! 1)) []
                                  else Inr [])
                        in (case tx of
                              Inl e \<Rightarrow> Inl e
                            | Inr tx_stats \<Rightarrow>
                                Inr (Some (port_num, dict_merge rx_stats tx_stats))))))
      else Inr None)"

fun parse_port_lines :: "string list \<Rightarrow> (int \<times> (string \<times> int) list) list
    \<Rightarrow> (int \<times> (string \<times> int) list) list" where
  "parse_port_lines [] port_stats = port_stats"
| "parse_port_lines (line # rest) port_stats =
     (if contains ''port'' line \<and> contains ''rx'' line then
        (case parse_port_line line of
           Inr (Some (port_num, stats)) \<Rightarrow>
             parse_port_lines rest (AList.update port_num stats port_stats)
         | _ \<Rightarrow> parse_port_lines rest port_stats)
      else parse_port_lines rest port_stats)"

definition parse_port_stats :: "string \<Rightarrow> (int \<times> (string \<times> int) list) list" where
  "parse_port_stats output = parse_port_lines (split_go [CHR 0x0A] [] output) []"

subsection \<open>\<^verbatim>\<open>NetworkMonitor._parse_flow_stats\<close>\<close>

record flow_info =
  line :: string
  timestamp :: real
  n_packets :: "int option"
  n_bytes :: "int option"

text \<open>
  The extraction of one counter: the text after the token runs to the next comma, or to
  the next space when no comma follows; with neither, or when the text is not an integer,
  the field is not set.
\<close>

definition extract_count :: "string \<Rightarrow> string \<Rightarrow> int option" where
  "extract_count token l =
     (if contains token l then
        (case find l token 0 of
           None \<Rightarrow> None
         | Some i \<Rightarrow>
             let start = i + length token;
                 end = (case find l '','' start of
                          None \<Rightarrow> find l '' '' start
                        | Some e \<Rightarrow> Some e)
             in (case end of
                   None \<Rightarrow> None
                 | Some e \<Rightarrow> py_int (slice l start e)))
      else None)"

text \<open>
  The rule in the words of the specification: the text before the next comma, or
  before the next space when no comma follows; \<open>None\<close> when neither follows.
\<close>

definition text_to_comma_or_space :: "string \<Rightarrow> string option" where
  "text_to_comma_or_space t =
     (case find_idx '','' t of
        Some k \<Rightarrow> Some (take k t)
      | None \<Rightarrow> (case find_idx '' '' t of Some k \<Rightarrow> Some (take k t) | None \<Rightarrow> None))"

fun parse_flow_lines :: "real \<Rightarrow> string list \<Rightarrow> flow_info list" where
  "parse_flow_lines now [] = []"
| "parse_flow_lines now (l # rest) =
     (if contains ''priority'' l \<and> contains ''n_packets'' l then
        \<lparr>line = strip l, timestamp = now,
         n_packets = extract_count ''n_packets='' l,
         n_bytes = extract_count ''n_bytes='' l\<rparr> # parse_flow_lines now rest
      else parse_flow_lines now rest)"

definition parse_flow_stats :: "real \<Rightarrow> string \<Rightarrow> flow_info list" where
  "parse_flow_stats now output = parse_flow_lines now (split_go [CHR 0x0A] [] output)"

subsection \<open>\<^verbatim>\<open>NetworkMonitor._generate_performance_report\<close>: the sample series\<close>

text \<open>
  Samples are numbers; numpy's mean, min, max and (population) standard deviation are
  taken over the reals. A statistics dictionary is an association list in the order
  of its keys.
\<close>

definition np_mean :: "real list \<Rightarrow> real" where
  "np_mean xs = sum_list xs / real (length xs)"

definition np_std :: "real list \<Rightarrow> real" where
  "np_std xs = sqrt (np_mean (map (\<lambda>x. (x - np_mean xs)\<^sup>2) xs))"

definition calculate_stats :: "real list \<Rightarrow> (string \<times> real) list" where
  "calculate_stats samples =
     (if samples = [] then [(''avg'', 0), (''min'', 0), (''max'', 0), (''std'', 0)]
      else [(''avg'', np_mean samples), (''min'', Min (set samples)),
            (''max'', Max (set samples)), (''std'', np_std samples),
            (''count'', real (length samples))])"

record performance_metrics =
  latency_samples :: "real list"
  throughput_samples :: "real list"
  packet_loss_samples :: "real list"
  jitter_samples :: "real list"

text \<open>\<^verbatim>\<open>deque(maxlen=n).append(x)\<close>: the oldest sample leaves a full deque.\<close>

definition deque_append :: "nat \<Rightarrow> 'a list \<Rightarrow> 'a \<Rightarrow> 'a list" where
  "deque_append maxlen d x = (let d' = d @ [x] in drop (length d' - maxlen) d')"

text \<open>The four series as \<^verbatim>\<open>NetworkMonitor.__init__\<close> creates them.\<close>

definition initial_metrics :: performance_metrics where
  "initial_metrics = \<lparr>latency_samples = [], throughput_samples = [],
     packet_loss_samples = [], jitter_samples = []\<rparr>"

text \<open>
  The writes of the polling loops to the series. One pass of
  \<^verbatim>\<open>_collect_network_metrics\<close> that reaches its end appends the two averages it
  computed; one ping of \<^verbatim>\<open>_monitor_connectivity\<close> appends the parsed latency
  when there is one and it is not zero (\<^verbatim>\<open>if latency:\<close>). No other statement of the
  monitor writes to a series.
\<close>

datatype poll = NetworkMetrics real real | Ping "real option"

fun poll_step :: "performance_metrics \<Rightarrow> poll \<Rightarrow> performance_metrics" where
  "poll_step pm (NetworkMetrics avg_throughput avg_packet_loss) =
     pm\<lparr>throughput_samples := deque_append 100 (throughput_samples pm) avg_throughput,
        packet_loss_samples := deque_append 100 (packet_loss_samples pm) avg_packet_loss\<rparr>"
| "poll_step pm (Ping None) = pm"
| "poll_step pm (Ping (Some latency)) =
     (if latency \<noteq> 0
      then pm\<lparr>latency_samples := deque_append 100 (latency_samples pm) latency\<rparr>
      else pm)"

text \<open>The \<^verbatim>\<open>'network_performance'\<close> entry of the report.\<close>

definition network_performance ::
    "performance_metrics \<Rightarrow> (string \<times> (string \<times> real) list) list" where
  "network_performance pm =
     [(''latency_ms'', calculate_stats (latency_samples pm)),
      (''throughput_bps'', calculate_stats (throughput_samples pm)),
      (''packet_loss_rate'', calculate_stats (packet_loss_samples pm)),
      (''jitter_ms'', calculate_stats (jitter_samples pm))]"

section \<open>Decoded JSON values\<close>

datatype json =
  JNull | JBool bool | JInt int | JFloat real | JStr string
  | JList "json list" | JObj "(string \<times> json) list"

text \<open>Python's truth value of a decoded JSON value (\<^verbatim>\<open>if not x\<close>).\<close>

fun truthy :: "json \<Rightarrow> bool" where
  "truthy JNull = False"
| "truthy (JBool b) = b"
| "truthy (JInt n) = (n \<noteq> 0)"
| "truthy (JFloat x) = (x \<noteq> 0)"
| "truthy (JStr s) = (s \<noteq> [])"
| "truthy (JList xs) = (xs \<noteq> [])"
| "truthy (JObj kvs) = (kvs \<noteq> [])"

text \<open>
  \<^verbatim>\<open>data.get(key)\<close>: the value of a dictionary, \<open>None\<close> for a missing key; any other
  JSON value has no \<^verbatim>\<open>get\<close> (AttributeError).
\<close>

fun dict_get :: "json \<Rightarrow> string \<Rightarrow> json option" where
  "dict_get (JObj kvs) key = Some (case map_of kvs key of None \<Rightarrow> JNull | Some v \<Rightarrow> v)"
| "dict_get _ key = None"

text \<open>\<^verbatim>\<open>isinstance(x, list) and len(x) == n\<close>\<close>

fun is_list_of_length :: "json \<Rightarrow> nat \<Rightarrow> bool" where
  "is_list_of_length (JList xs) n = (length xs = n)"
| "is_list_of_length _ n = False"

text \<open>\<^verbatim>\<open>str(n)\<close> for integers.\<close>

definition digit_char :: "nat \<Rightarrow> char" where
  "digit_char d = char_of (48 + d)"

fun str_nat :: "nat \<Rightarrow> string" where
  "str_nat n = (if n < 10 then [digit_char n] else str_nat (n div 10) @ [digit_char (n mod 10)])"

declare str_nat.simps [simp del]

definition str_int :: "int \<Rightarrow> string" where
  "str_int i = (if i < 0 then CHR ''-'' # str_nat (nat (- i)) else str_nat (nat i))"

text \<open>
  A state vector as numpy reads it: a list of JSON numbers. What numpy and the model
  make of any other value (nested lists, strings, booleans) is not modelled; such a
  state gives the outcome \<open>Unmodelled\<close>.
\<close>

fun number :: "json \<Rightarrow> real option" where
  "number (JInt n) = Some (real_of_int n)"
| "number (JFloat x) = Some x"
| "number _ = None"

fun as_vector :: "json \<Rightarrow> real list option" where
  "as_vector (JList xs) =
     (if list_all (\<lambda>x. number x \<noteq> None) xs then Some (map (\<lambda>x. the (number x)) xs) else None)"
| "as_vector _ = None"

section \<open>Path-selection agent\<close>

text \<open>
  The agent's fields. The dictionaries \<open>possible_paths\<close> and \<open>q_table\<close> are association
  lists in insertion order; a candidate path is the JSON value read from the paths file.
  Numbers are taken as reals: the definitions follow the arithmetic expressions of the
  source, not the rounding of its floating-point operations. \<open>model\<close> stands for
  \<^verbatim>\<open>self.model.predict(batch)[0][0]\<close> on a batch of one state vector, \<open>None\<close> when the call raises; no statement of the agent
  trains the model. \<open>saved_models\<close> lists the step counts at which
  \<^verbatim>\<open>self.model.save\<close> wrote a checkpoint.
\<close>

record agent =
  state_size :: nat
  learning_rate :: real
  discount_factor :: real
  save_interval :: int
  possible_paths :: "(string \<times> json list) list"
  q_table :: "(string \<times> real list) list"
  model :: "real list \<Rightarrow> real option"
  recent_rewards :: "json list"
  total_steps :: int
  saved_models :: "int list"

text \<open>\<^verbatim>\<open>np.zeros(n)\<close>\<close>

definition np_zeros :: "nat \<Rightarrow> real list" where
  "np_zeros n = replicate n 0"

text \<open>\<^verbatim>\<open>if key not in self.q_table: self.q_table[key] = np.zeros(self.state_size)\<close>\<close>

definition ensure_entry :: "string \<Rightarrow> agent \<Rightarrow> agent" where
  "ensure_entry key ag =
     (case map_of (q_table ag) key of
        Some entry \<Rightarrow> ag
      | None \<Rightarrow> ag\<lparr>q_table := q_table ag @ [(key, np_zeros (state_size ag))]\<rparr>)"

text \<open>\<^verbatim>\<open>np.argmax\<close>: the first index of a largest element; an empty sequence raises.\<close>

fun argmax_go :: "nat \<Rightarrow> real \<Rightarrow> nat \<Rightarrow> real list \<Rightarrow> nat" where
  "argmax_go best_i best i [] = best_i"
| "argmax_go best_i best i (x # xs) =
     (if best < x then argmax_go i x (Suc i) xs else argmax_go best_i best (Suc i) xs)"

fun np_argmax :: "real list \<Rightarrow> py_error + nat" where
  "np_argmax [] = Inl ValueError"
| "np_argmax (x # xs) = Inr (argmax_go 0 x 1 xs)"

text \<open>\<^verbatim>\<open>max(list)\<close>\<close>

fun py_max :: "real list \<Rightarrow> py_error + real" where
  "py_max [] = Inl ValueError"
| "py_max (x # xs) = Inr (fold (\<lambda>y m. if m < y then y else m) xs x)"

subsection \<open>\<^verbatim>\<open>QLearningAgent.get_action\<close>\<close>

text \<open>
  \<open>py_str\<close> is Python's \<^verbatim>\<open>str\<close> on a decoded JSON value (also what an f-string
  writes for it); the definitions take it as a parameter.

  The loop over the candidates: each candidate's table entry is created when missing,
  then the model is asked for the value of the state.
\<close>

fun score_paths :: "(json \<Rightarrow> string) \<Rightarrow> real list \<Rightarrow> json list \<Rightarrow> real list \<Rightarrow> agent
    \<Rightarrow> (py_error + real list) \<times> agent" where
  "score_paths py_str state [] q_values ag = (Inr q_values, ag)"
| "score_paths py_str state (path # paths) q_values ag =
     (let ag1 = ensure_entry (py_str path) ag
      in case model ag1 state of
           None \<Rightarrow> (Inl PredictError, ag1)
         | Some q_value \<Rightarrow> score_paths py_str state paths (q_values @ [q_value]) ag1)"

text \<open>
  The result \<open>Inr None\<close> is the source's \<^verbatim>\<open>return None, None\<close>, \<open>Inr (Some (path, i))\<close>
  its \<^verbatim>\<open>return chosen_path, action_idx\<close>, \<open>Inl e\<close> an exception. The agent comes back
  as the call leaves it.
\<close>

definition get_action :: "(json \<Rightarrow> string) \<Rightarrow> json \<Rightarrow> json \<Rightarrow> json \<Rightarrow> agent
    \<Rightarrow> (py_error + (json \<times> nat) option) \<times> agent" where
  "get_action py_str state src_sw dst_sw ag =
     (let path_key = py_str src_sw @ ''->'' @ py_str dst_sw
      in case map_of (possible_paths ag) path_key of
           None \<Rightarrow> (Inr None, ag)
         | Some paths \<Rightarrow>
             if paths = [] then (Inr None, ag)
             else (case as_vector state of
                     None \<Rightarrow> (Inl Unmodelled, ag)
                   | Some v \<Rightarrow>
                       (case score_paths py_str v paths [] ag of
                          (Inl e, ag1) \<Rightarrow> (Inl e, ag1)
                        | (Inr q_values, ag1) \<Rightarrow>
                            (case np_argmax q_values of
                               Inl e \<Rightarrow> (Inl e, ag1)
                             | Inr action_idx \<Rightarrow>
                                 if action_idx < length paths
                                 then (Inr (Some (paths ! action_idx, action_idx)), ag1)
                                 else (Inl IndexError, ag1)))))"

subsection \<open>\<^verbatim>\<open>QLearningAgent.update_q_table\<close>\<close>

text \<open>
  \<^verbatim>\<open>np.array(state)\<close>: the shape numpy finds for a decoded value. Numbers, strings,
  booleans, \<open>None\<close> and dictionaries are scalars; a list is an array when its elements
  all have the same shape. For a ragged list (\<open>None\<close> here) numpy raises ValueError or,
  before version 1.24, builds an array of objects; the model gives \<open>Unmodelled\<close>
  there.
\<close>

fun np_shape :: "json \<Rightarrow> nat list option" where
  "np_shape (JList []) = Some [0]"
| "np_shape (JList (x # xs)) =
     (case np_shape x of
        None \<Rightarrow> None
      | Some sh \<Rightarrow>
          if list_all (\<lambda>y. np_shape y = Some sh) xs then Some (Suc (length xs) # sh)
          else None)"
| "np_shape v = Some []"

text \<open>
  The reward enters the arithmetic as a number, a boolean as 0 or 1; \<open>None\<close> and
  strings raise TypeError there. What numpy does with a list or dictionary reward is
  not modelled.
\<close>

fun reward_value :: "json \<Rightarrow> py_error + real" where
  "reward_value (JInt n) = Inr (real_of_int n)"
| "reward_value (JFloat x) = Inr x"
| "reward_value (JBool b) = Inr (if b then 1 else 0)"
| "reward_value JNull = Inl TypeError"
| "reward_value (JStr s) = Inl TypeError"
| "reward_value _ = Inl Unmodelled"

text \<open>
  The new table entry, componentwise over the old one. The state is converted by
  \<^verbatim>\<open>np.array\<close> and not read again; the next state goes to the model.
\<close>

definition blend :: "real \<Rightarrow> real \<Rightarrow> real \<Rightarrow> real \<Rightarrow> real list \<Rightarrow> real list" where
  "blend \<alpha> \<gamma> reward next_max_q current_q =
     map (\<lambda>q. (1 - \<alpha>) * q + \<alpha> * (reward + \<gamma> * next_max_q)) current_q"

definition update_q_table :: "(json \<Rightarrow> string) \<Rightarrow> json \<Rightarrow> json \<Rightarrow> json \<Rightarrow> json \<Rightarrow> agent
    \<Rightarrow> py_error option \<times> agent" where
  "update_q_table py_str state action reward next_state ag =
     (let action_str = py_str action;
          ag1 = ensure_entry action_str ag
      in case np_shape state of
           None \<Rightarrow> (Some Unmodelled, ag1)
         | Some state_shape \<Rightarrow>
        (case as_vector next_state of
           None \<Rightarrow> (Some Unmodelled, ag1)
         | Some ns \<Rightarrow>
        (case map_of (q_table ag1) action_str of
           None \<Rightarrow> (Some KeyError, ag1)
         | Some current_q \<Rightarrow>
        (case model ag1 ns of
           None \<Rightarrow> (Some PredictError, ag1)
         | Some q \<Rightarrow>
        (case py_max (map (\<lambda>path. q) (q_table ag1)) of
           Inl e \<Rightarrow> (Some e, ag1)
         | Inr next_max_q \<Rightarrow>
        (case reward_value reward of
           Inl e \<Rightarrow> (Some e, ag1)
         | Inr r \<Rightarrow>
             let ag2 = ag1\<lparr>q_table :=
                         AList.update action_str
                           (blend (learning_rate ag1) (discount_factor ag1) r next_max_q current_q)
                           (q_table ag1),
                       recent_rewards := recent_rewards ag1 @ [reward],
                       total_steps := total_steps ag1 + 1\<rparr>
             in if save_interval ag2 = 0 then (Some ZeroDivisionError, ag2)
                else if total_steps ag2 mod save_interval ag2 = 0
                then (None, ag2\<lparr>saved_models := saved_models ag2 @ [total_steps ag2]\<rparr>)
                else (None, ag2)))))))"

subsection \<open>The HTTP handlers \<^verbatim>\<open>get_path\<close> and \<^verbatim>\<open>update\<close>\<close>

text \<open>
  A response is a status code and a body. \<open>ErrorText\<close> is \<^verbatim>\<open>{'error': text}\<close>,
  \<open>ErrorOf e\<close> is \<^verbatim>\<open>{'error': str(e)}\<close> for a caught exception, \<open>StatusSuccess\<close> is
  \<^verbatim>\<open>{'status': 'success'}\<close>, \<open>PathInstalled\<close> the controller's success message
  for a path. The handlers take the decoded request body.

  In \<^verbatim>\<open>get_path\<close> the index returned by \<^verbatim>\<open>np.argmax\<close> is a numpy integer, which
  \<^verbatim>\<open>jsonify\<close> cannot serialise: building the reply for a chosen path raises TypeError,
  and the handler answers 500.
\<close>

datatype body =
  ErrorText string | ErrorOf py_error | StatusSuccess | PathInstalled "int list"

type_synonym response = "nat \<times> body"

definition get_path :: "(json \<Rightarrow> string) \<Rightarrow> json \<Rightarrow> agent \<Rightarrow> response \<times> agent" where
  "get_path py_str data ag =
     (if truthy data then
        (case (dict_get data ''src'', dict_get data ''dst'', dict_get data ''state'') of
           (Some src_sw, Some dst_sw, Some state) \<Rightarrow>
             if truthy src_sw then
               if truthy dst_sw then
                 if is_list_of_length state (state_size ag) then
                   let path_key = py_str src_sw @ ''->'' @ py_str dst_sw
                   in (case map_of (possible_paths ag) path_key of
                         None \<Rightarrow> ((400, ErrorText (''Invalid src-dst pair: '' @ path_key)), ag)
                       | Some paths \<Rightarrow>
                          (case get_action py_str state src_sw dst_sw ag of
                             (Inl e, ag1) \<Rightarrow> ((500, ErrorOf e), ag1)
                           | (Inr None, ag1) \<Rightarrow> ((400, ErrorText ''No valid path found''), ag1)
                           | (Inr (Some (path, action_idx)), ag1) \<Rightarrow>
                               ((500, ErrorOf TypeError), ag1)))
                 else ((400, ErrorText (''State must be a list of length ''
                                         @ str_nat (state_size ag))), ag)
               else ((400, ErrorText ''Missing src or dst''), ag)
             else ((400, ErrorText ''Missing src or dst''), ag)
         | _ \<Rightarrow> ((500, ErrorOf AttributeError), ag))
      else ((400, ErrorText ''No JSON data provided''), ag))"

definition update :: "(json \<Rightarrow> string) \<Rightarrow> json \<Rightarrow> agent \<Rightarrow> response \<times> agent" where
  "update py_str data ag =
     (case (dict_get data ''state'', dict_get data ''action'',
            dict_get data ''reward'', dict_get data ''next_state'') of
        (Some state, Some action, Some reward, Some next_state) \<Rightarrow>
          if truthy state \<and> truthy action \<and> reward \<noteq> JNull \<and> truthy next_state then
            if is_list_of_length state (state_size ag) then
              if is_list_of_length next_state (state_size ag) then
                (case update_q_table py_str state action reward next_state ag of
                   (Some e, ag1) \<Rightarrow> ((500, ErrorOf e), ag1)
                 | (None, ag1) \<Rightarrow> ((200, StatusSuccess), ag1))
              else ((400, ErrorText (''Next_state must be a list of length ''
                                      @ str_nat (state_size ag))), ag)
            else ((400, ErrorText (''State must be a list of length ''
                                    @ str_nat (state_size ag))), ag)
          else ((400, ErrorText ''Missing required fields''), ag)
      | _ \<Rightarrow> ((500, ErrorOf AttributeError), ag))"

section \<open>Topology descriptor\<close>

text \<open>The document written to \<^verbatim>\<open>data/config/topology_info.json\<close>.\<close>

record switch_info =
  dpid :: int
  ports :: "(string \<times> int) list"

record host_info =
  ip :: string
  mac :: string
  connected_to :: string

record link =
  src :: string
  dst :: string
  port :: int

record topology_info =
  switches :: "(string \<times> switch_info) list"
  hosts :: "(string \<times> host_info) list"
  links :: "link list"

section \<open>Forwarding controller\<close>

text \<open>
  An \<^verbatim>\<open>OFPMatch\<close> with the fields this controller sets, the one action it builds, and
  the two messages it sends. A flow-mod carries priority, match, the actions of its
  single apply-actions instruction, and the two timeouts.
\<close>

record ofp_match =
  eth_type :: "int option"
  ipv4_src :: "string option"
  ipv4_dst :: "string option"
  ip_proto :: "int option"

datatype ofp_action = OFPActionOutput int

datatype ofp_msg =
  OFPFlowMod int ofp_match "ofp_action list" int int
  | OFPPacketOut int int "ofp_action list" "string option"

record datapath =
  dp_id :: int

text \<open>An entry of \<^verbatim>\<open>flow_stats['flows']\<close>.\<close>

record flow_record =
  flow_dpid :: int
  flow_src_ip :: string
  flow_dst_ip :: string
  flow_actions :: "string list"

text \<open>
  The undirected \<^verbatim>\<open>networkx.Graph\<close>: its nodes, and the \<^verbatim>\<open>port\<close> attribute of each
  edge, stored under the ordered pair of its end points.
\<close>

record graph =
  nodes :: "int list"
  edges :: "((int \<times> int) \<times> int) list"

definition edge_port :: "graph \<Rightarrow> int \<Rightarrow> int \<Rightarrow> int option" where
  "edge_port g u v = map_of (edges g) (min u v, max u v)"

text \<open>
  The controller's fields; \<open>sent\<close> lists the messages handed to
  \<^verbatim>\<open>datapath.send_msg\<close>, each with the id of its datapath.
\<close>

record controller =
  mac_to_port :: "(int \<times> (string \<times> int) list) list"
  topology_graph :: graph
  datapaths :: "(int \<times> datapath) list"
  flow_count :: int
  flows :: "flow_record list"
  existing_flows :: "(int \<times> string \<times> string) list"
  sent :: "(int \<times> ofp_msg) list"

text \<open>
  What the controller takes from outside itself: Ryu's \<^verbatim>\<open>str\<close> of a match, of an
  action list and of one action; \<^verbatim>\<open>networkx.shortest_path(G, source, target)\<close>, called
  without weights; the descriptor file as it reads (\<open>None\<close> when reading fails); the
  agent's answer to a \<^verbatim>\<open>/get_path\<close> request; the number of recent rewards in the
  agent's \<^verbatim>\<open>/stats\<close> (\<open>None\<close> when that request fails).
\<close>

datatype sp_result = SPath "int list" | NetworkXNoPath | NXNodeNotFound

datatype agent_answer = AgentFailed | AgentJson "int list option"

record env =
  str_match :: "ofp_match \<Rightarrow> string"
  str_actions :: "ofp_action list \<Rightarrow> string"
  str_action :: "ofp_action \<Rightarrow> string"
  nx_shortest_path :: "graph \<Rightarrow> int \<Rightarrow> int \<Rightarrow> sp_result"
  topology_file :: "topology_info option"
  agent_get_path :: "string \<Rightarrow> string \<Rightarrow> real list \<Rightarrow> agent_answer"
  agent_stats :: "nat option"

subsection \<open>\<^verbatim>\<open>SimpleSwitch13.add_flow\<close>\<close>

definition add_flow :: "env \<Rightarrow> datapath \<Rightarrow> int \<Rightarrow> ofp_match \<Rightarrow> ofp_action list \<Rightarrow> int \<Rightarrow> int
    \<Rightarrow> controller \<Rightarrow> controller" where
  "add_flow e dp priority match actions idle_timeout hard_timeout st =
     (let flow_mod = OFPFlowMod priority match actions idle_timeout hard_timeout;
          flow_key = (dp_id dp, str_match e match, str_actions e actions)
      in if flow_key \<in> set (existing_flows st) then st
         else st\<lparr>sent := sent st @ [(dp_id dp, flow_mod)],
                 flow_count := flow_count st + 1,
                 flows := flows st @
                   [\<lparr>flow_dpid = dp_id dp,
                     flow_src_ip = (case ipv4_src match of None \<Rightarrow> ''unknown'' | Some a \<Rightarrow> a),
                     flow_dst_ip = (case ipv4_dst match of None \<Rightarrow> ''unknown'' | Some a \<Rightarrow> a),
                     flow_actions = map (str_action e) actions\<rparr>],
                 existing_flows := existing_flows st @ [flow_key]\<rparr>)"

subsection \<open>Helpers of the handlers\<close>

text \<open>\<^verbatim>\<open>_get_switch_for_ip\<close>: every failure inside gives \<open>None\<close>.\<close>

definition get_switch_for_ip :: "env \<Rightarrow> string \<Rightarrow> int option" where
  "get_switch_for_ip e addr =
     (case topology_file e of
        None \<Rightarrow> None
      | Some topo \<Rightarrow>
          (case List.find (\<lambda>(host, info). ip info = addr) (hosts topo) of
             None \<Rightarrow> None
           | Some (host, info) \<Rightarrow>
               (case map_of (switches topo) (connected_to info) of
                  None \<Rightarrow> None
                | Some sw \<Rightarrow> Some (dpid sw))))"

text \<open>\<^verbatim>\<open>_get_shortest_path\<close>: only \<^verbatim>\<open>NetworkXNoPath\<close> is caught.\<close>

definition get_shortest_path :: "env \<Rightarrow> controller \<Rightarrow> int \<Rightarrow> int \<Rightarrow> py_error + int list" where
  "get_shortest_path e st src_switch dst_switch =
     (case nx_shortest_path e (topology_graph st) src_switch dst_switch of
        SPath path \<Rightarrow> Inr path
      | NetworkXNoPath \<Rightarrow> Inr []
      | NXNodeNotFound \<Rightarrow> Inl NodeNotFound)"

text \<open>\<^verbatim>\<open>_get_current_network_state\<close>\<close>

definition get_current_network_state :: "env \<Rightarrow> controller \<Rightarrow> real list" where
  "get_current_network_state e st =
     (let n = real (length (nodes (topology_graph st)))
      in [real_of_int (flow_count st),
          real (length (flows st)),
          real (length (edges (topology_graph st))) / max (n * (n - 1) / 2) 1,
          real (case agent_stats e of None \<Rightarrow> 0 | Some k \<Rightarrow> k)])"

text \<open>
  \<^verbatim>\<open>_request_path_from_rl_agent\<close> followed by
  \<^verbatim>\<open>path_info.get('path', []) if path_info else []\<close>.
\<close>

definition request_path_from_rl_agent :: "env \<Rightarrow> int \<Rightarrow> int \<Rightarrow> real list \<Rightarrow> agent_answer" where
  "request_path_from_rl_agent e src_switch dst_switch network_state =
     agent_get_path e (str_int src_switch) (str_int dst_switch) network_state"

fun path_of :: "agent_answer \<Rightarrow> int list" where
  "path_of AgentFailed = []"
| "path_of (AgentJson None) = []"
| "path_of (AgentJson (Some path)) = path"

subsection \<open>\<^verbatim>\<open>SimpleSwitch13._install_path_flows\<close>\<close>

fun install_path_flows :: "env \<Rightarrow> int list \<Rightarrow> string \<Rightarrow> string \<Rightarrow> controller \<Rightarrow> controller" where
  "install_path_flows e (src_dpid # dst_dpid # rest) src_ip dst_ip st =
     install_path_flows e (dst_dpid # rest) src_ip dst_ip
       (case map_of (datapaths st) src_dpid of
          None \<Rightarrow> st
        | Some dp \<Rightarrow>
            (case edge_port (topology_graph st) src_dpid dst_dpid of
               None \<Rightarrow> st
             | Some out_port \<Rightarrow>
                 add_flow e dp 10
                   \<lparr>eth_type = Some 0x0800, ipv4_src = Some src_ip,
                    ipv4_dst = Some dst_ip, ip_proto = Some 6\<rparr>
                   [OFPActionOutput out_port] 120 300 st))"
| "install_path_flows e path src_ip dst_ip st = st"

subsection \<open>\<^verbatim>\<open>SimpleSwitch13.packet_in_handler\<close>\<close>

record packet_in =
  pi_datapath :: datapath
  in_port :: int
  eth_src :: string
  eth_dst :: string
  ethertype :: int
  ip_pkt :: "(string \<times> string) option"
  buffer_id :: int
  pkt_data :: string

definition OFPP_FLOOD :: int where
  "OFPP_FLOOD = 0xfffffffb"

definition OFP_NO_BUFFER :: int where
  "OFP_NO_BUFFER = 0xffffffff"

text \<open>
  The handler returns the exception that left it, if any, and the controller as the
  handler leaves it. \<open>ip_pkt\<close> holds source and destination address of an IPv4 payload.
\<close>

definition packet_in_handler :: "env \<Rightarrow> packet_in \<Rightarrow> controller
    \<Rightarrow> py_error option \<times> controller" where
  "packet_in_handler e ev st =
     (if ethertype ev = 0x0806 then (None, st)
      else
        let dp = pi_datapath ev;
            learned = AList.update (eth_src ev) (in_port ev)
                        (case map_of (mac_to_port st) (dp_id dp) of None \<Rightarrow> [] | Some t \<Rightarrow> t);
            st1 = st\<lparr>mac_to_port := AList.update (dp_id dp) learned (mac_to_port st)\<rparr>;
            out_port = (case map_of learned (eth_dst ev) of
                          Some p \<Rightarrow> p | None \<Rightarrow> OFPP_FLOOD);
            actions = [OFPActionOutput out_port];
            routed =
              (if out_port = OFPP_FLOOD then Inr st1
               else case ip_pkt ev of
                 None \<Rightarrow> Inr st1
               | Some (src_ip, dst_ip) \<Rightarrow>
                  (case (get_switch_for_ip e src_ip, get_switch_for_ip e dst_ip) of
                     (Some src_switch, Some dst_switch) \<Rightarrow>
                       if src_switch = 0 \<or> dst_switch = 0 then Inr st1
                       else
                         let network_state = get_current_network_state e st1;
                             path = path_of (request_path_from_rl_agent e src_switch dst_switch
                                               network_state)
                         in (case (if path = []
                                   then get_shortest_path e st1 src_switch dst_switch
                                   else Inr path) of
                               Inl err \<Rightarrow> Inl err
                             | Inr path \<Rightarrow>
                                 Inr (if path = [] then st1
                                      else install_path_flows e path src_ip dst_ip st1))
                   | _ \<Rightarrow> Inr st1))
        in case routed of
             Inl err \<Rightarrow> (Some err, st1)
           | Inr st2 \<Rightarrow>
               (None, st2\<lparr>sent := sent st2 @
                  [(dp_id dp, OFPPacketOut (buffer_id ev) (in_port ev) actions
                      (if buffer_id ev = OFP_NO_BUFFER then Some (pkt_data ev) else None))]\<rparr>))"

subsection \<open>\<^verbatim>\<open>SimpleSwitch13._reroute_affected_flows\<close>\<close>

fun reroute_loop :: "env \<Rightarrow> (string \<times> string) list \<Rightarrow> controller
    \<Rightarrow> py_error option \<times> controller" where
  "reroute_loop e [] st = (None, st)"
| "reroute_loop e ((src_ip, dst_ip) # rest) st =
     (case (get_switch_for_ip e src_ip, get_switch_for_ip e dst_ip) of
        (Some src_switch, Some dst_switch) \<Rightarrow>
          if src_switch = 0 \<or> dst_switch = 0 then reroute_loop e rest st
          else
            let network_state = get_current_network_state e st;
                path = path_of (request_path_from_rl_agent e src_switch dst_switch network_state)
            in (case (if path = []
                      then get_shortest_path e st src_switch dst_switch
                      else Inr path) of
                  Inl err \<Rightarrow> (Some err, st)
                | Inr path \<Rightarrow>
                    reroute_loop e rest
                      (if path = [] then st else install_path_flows e path src_ip dst_ip st))
      | _ \<Rightarrow> reroute_loop e rest st)"

definition reroute_affected_flows :: "env \<Rightarrow> int \<Rightarrow> int \<Rightarrow> controller
    \<Rightarrow> py_error option \<times> controller" where
  "reroute_affected_flows e dp port_no st =
     (let affected_flows =
            map (\<lambda>flow. (flow_src_ip flow, flow_dst_ip flow))
              (filter (\<lambda>flow. flow_dpid flow = dp) (flows st))
      in reroute_loop e affected_flows st)"

subsection \<open>\<^verbatim>\<open>RLControllerAPI.force_path_installation\<close>\<close>

text \<open>
  The decoded request: the two addresses (empty when missing) and the explicit path
  (empty when missing). The wait for the topology is over when the handler goes on.
\<close>

record force_path_request =
  req_src_ip :: string
  req_dst_ip :: string
  req_path :: "int list"

definition force_path_installation :: "env \<Rightarrow> force_path_request \<Rightarrow> controller
    \<Rightarrow> response \<times> controller" where
  "force_path_installation e req st =
     (let src_ip = req_src_ip req; dst_ip = req_dst_ip req
      in if src_ip = [] \<or> dst_ip = [] then ((400, ErrorText ''Missing src_ip or dst_ip''), st)
      else if nodes (topology_graph st) = [] then ((503, ErrorText ''Topology not ready''), st)
      else
        (case (get_switch_for_ip e src_ip, get_switch_for_ip e dst_ip) of
           (Some src_switch, Some dst_switch) \<Rightarrow>
             if src_switch = 0 \<or> dst_switch = 0
             then ((400, ErrorText (''Cannot find switches for '' @ src_ip @ '' -> '' @ dst_ip)), st)
             else
               (case (if req_path req = [] then
                        let network_state = get_current_network_state e st;
                            path = path_of (request_path_from_rl_agent e src_switch dst_switch
                                              network_state)
                        in if path = [] then get_shortest_path e st src_switch dst_switch
                           else Inr path
                      else Inr (req_path req)) of
                  Inl err \<Rightarrow> ((500, ErrorOf err), st)
                | Inr path \<Rightarrow>
                    if path = [] then ((400, ErrorText ''No valid path found''), st)
                    else ((200, PathInstalled path),
                          install_path_flows e path src_ip dst_ip st))
         | _ \<Rightarrow> ((400, ErrorText (''Cannot find switches for '' @ src_ip @ '' -> '' @ dst_ip)), st)))"

section \<open>Topology provisioner: the grid descriptor\<close>

text \<open>A dictionary display or comprehension: later items overwrite earlier ones.\<close>

definition dict_of :: "('k \<times> 'v) list \<Rightarrow> ('k \<times> 'v) list" where
  "dict_of items = fold (\<lambda>(k, v). AList.update k v) items []"

text \<open>A loop whose body may raise.\<close>

fun for_each :: "('a \<Rightarrow> 's \<Rightarrow> py_error + 's) \<Rightarrow> 'a list \<Rightarrow> 's \<Rightarrow> py_error + 's" where
  "for_each body [] s = Inr s"
| "for_each body (x # xs) s =
     (case body x s of Inl err \<Rightarrow> Inl err | Inr s' \<Rightarrow> for_each body xs s')"

text \<open>The names \<^verbatim>\<open>f's{k}'\<close> and \<^verbatim>\<open>f'h{k}'\<close>.\<close>

definition sname :: "nat \<Rightarrow> string" where
  "sname k = CHR ''s'' # str_nat k"

definition hname :: "nat \<Rightarrow> string" where
  "hname k = CHR ''h'' # str_nat k"

text \<open>
  The state of \<^verbatim>\<open>GridTopo.generate_topology_info\<close> is the descriptor under
  construction and the port counters. Attaching a host to its corner switch:
\<close>

definition attach_host :: "string \<times> string \<Rightarrow> topology_info \<times> (string \<times> int) list
    \<Rightarrow> py_error + topology_info \<times> (string \<times> int) list" where
  "attach_host hs st =
     (case hs of (host, switch) \<Rightarrow> case st of (topo, port_counters) \<Rightarrow>
        (case map_of (hosts topo) host of
           None \<Rightarrow> Inl KeyError
         | Some h \<Rightarrow>
        (case map_of (switches topo) switch of
           None \<Rightarrow> Inl KeyError
         | Some sw \<Rightarrow>
        (case map_of port_counters switch of
           None \<Rightarrow> Inl KeyError
         | Some p \<Rightarrow>
             Inr (topo\<lparr>hosts := AList.update host (h\<lparr>connected_to := switch\<rparr>) (hosts topo),
                       switches := AList.update switch
                          (sw\<lparr>ports := AList.update host p (ports sw)\<rparr>) (switches topo),
                       links := links topo @ [\<lparr>src = host, dst = switch, port = p\<rparr>]\<rparr>,
                  AList.update switch (p + 1) port_counters)))))"

text \<open>One grid link from \<open>current_switch\<close> to \<open>next_switch\<close>.\<close>

definition add_link :: "string \<Rightarrow> string \<Rightarrow> topology_info \<times> (string \<times> int) list
    \<Rightarrow> py_error + topology_info \<times> (string \<times> int) list" where
  "add_link current_switch next_switch st =
     (case st of (topo, port_counters) \<Rightarrow>
        (case map_of port_counters current_switch of
           None \<Rightarrow> Inl KeyError
         | Some p1 \<Rightarrow>
        (case map_of (switches topo) current_switch of
           None \<Rightarrow> Inl KeyError
         | Some cur \<Rightarrow>
            let sws1 = AList.update current_switch
                         (cur\<lparr>ports := AList.update next_switch p1 (ports cur)\<rparr>) (switches topo)
            in
        (case map_of port_counters next_switch of
           None \<Rightarrow> Inl KeyError
         | Some p2 \<Rightarrow>
        (case map_of sws1 next_switch of
           None \<Rightarrow> Inl KeyError
         | Some nxt \<Rightarrow>
            let sws2 = AList.update next_switch
                         (nxt\<lparr>ports := AList.update current_switch p2 (ports nxt)\<rparr>) sws1;
                pc1 = AList.update current_switch (p1 + 1) port_counters
            in
        (case map_of pc1 next_switch of
           None \<Rightarrow> Inl KeyError
         | Some p2' \<Rightarrow>
             Inr (topo\<lparr>switches := sws2,
                       links := links topo @
                         [\<lparr>src = current_switch, dst = next_switch, port = p1\<rparr>]\<rparr>,
                  AList.update next_switch (p2' + 1) pc1)))))))"

text \<open>The body of the two nested loops over the grid positions.\<close>

definition grid_cell :: "nat \<Rightarrow> nat \<times> nat \<Rightarrow> topology_info \<times> (string \<times> int) list
    \<Rightarrow> py_error + topology_info \<times> (string \<times> int) list" where
  "grid_cell grid_size ij st =
     (case ij of (i, j) \<Rightarrow>
        let current_switch = sname (i * grid_size + j + 1)
        in case (if j < grid_size - 1 then add_link current_switch (sname (i * grid_size + j + 2)) st
                 else Inr st) of
             Inl err \<Rightarrow> Inl err
           | Inr st1 \<Rightarrow>
               if i < grid_size - 1
               then add_link current_switch (sname ((i + 1) * grid_size + j + 1)) st1
               else Inr st1)"

definition generate_topology_info :: "nat \<Rightarrow> nat \<Rightarrow> py_error + topology_info" where
  "generate_topology_info n_hosts grid_size =
     (let topo = \<lparr>switches = dict_of (map (\<lambda>i. (sname (i + 1),
                                   \<lparr>dpid = int (i + 1), ports = []\<rparr>)) [0..<grid_size * grid_size]),
                  hosts = dict_of (map (\<lambda>i. (hname (i + 1),
                                   \<lparr>ip = ''10.0.0.'' @ str_nat (i + 1),
                                    mac = ''00:00:00:00:00:0'' @ str_nat (i + 1),
                                    connected_to = []\<rparr>)) [0..<n_hosts]),
                  links = []\<rparr>;
          port_counters = dict_of (map (\<lambda>i. (sname (i + 1), 1)) [0..<grid_size * grid_size]);
          corner_switches = dict_of
            [(''h1'', ''s1''), (''h2'', sname grid_size),
             (''h3'', sname (grid_size * (grid_size - 1) + 1)), (''h4'', sname (grid_size * grid_size))]
      in case for_each attach_host corner_switches (topo, port_counters) of
           Inl err \<Rightarrow> Inl err
         | Inr st1 \<Rightarrow>
             (case for_each (grid_cell grid_size)
                     (concat (map (\<lambda>i. map (\<lambda>j. (i, j)) [0..<grid_size]) [0..<grid_size])) st1 of
                Inl err \<Rightarrow> Inl err
              | Inr (topo', port_counters') \<Rightarrow> Inr topo'))"

text \<open>
  \<^verbatim>\<open>GridTopo.build\<close>. Mininet's \<^verbatim>\<open>Topo.addSwitch\<close> and \<^verbatim>\<open>Topo.addHost\<close> return the
  name of the node, a string, and a string has no attribute \<^verbatim>\<open>name\<close>.
\<close>

definition attr_name :: "string \<Rightarrow> py_error + string" where
  "attr_name node = Inl AttributeError"

text \<open>
  The body of the loop over the corners: the port is read from the counters, the link
  is added, the message with \<^verbatim>\<open>host.name\<close> is formatted, the counter is incremented.
\<close>

definition corner_link :: "string \<times> string \<Rightarrow> (string \<times> int) list
    \<Rightarrow> py_error + (string \<times> int) list" where
  "corner_link hs port_counters =
     (case hs of (host, switch_name) \<Rightarrow>
        (case map_of port_counters switch_name of
           None \<Rightarrow> Inl KeyError
         | Some p \<Rightarrow>
             (case attr_name host of
                Inl err \<Rightarrow> Inl err
              | Inr host_name \<Rightarrow> Inr (AList.update switch_name (p + 1) port_counters))))"

text \<open>
  The builder reads the corners of the switch grid (IndexError on an empty grid), links
  the four hosts to them, adds the grid links (a loop over switch names that raises
  nothing and writes only to the topology and the counters) and then generates the
  descriptor.
\<close>

definition grid_build :: "nat \<Rightarrow> py_error + topology_info" where
  "grid_build grid_size =
     (if grid_size = 0 then Inl IndexError
      else
        let port_counters = dict_of (map (\<lambda>i. (sname (i + 1), 1)) [0..<grid_size * grid_size]);
            corner_switches =
              [(''h1'', ''s1''), (''h2'', sname grid_size),
               (''h3'', sname (grid_size * (grid_size - 1) + 1)),
               (''h4'', sname (grid_size * grid_size))]
        in case for_each corner_link corner_switches port_counters of
             Inl err \<Rightarrow> Inl err
           | Inr port_counters' \<Rightarrow> generate_topology_info 4 grid_size)"

section \<open>A formatting function for running the model\<close>

text \<open>
  Python's \<^verbatim>\<open>str\<close> on the values the examples below use: a string is itself, an integer
  its decimal numeral, a list of integers the bracketed numerals separated by a comma
  and a space.
\<close>

fun join_comma :: "string list \<Rightarrow> string" where
  "join_comma [] = []"
| "join_comma [x] = x"
| "join_comma (x # y # ys) = x @ '', '' @ join_comma (y # ys)"

fun str_basic :: "json \<Rightarrow> string" where
  "str_basic (JStr s) = s"
| "str_basic (JInt n) = str_int n"
| "str_basic (JList xs) = ''['' @ join_comma (map str_basic xs) @ '']''"
| "str_basic v = []"

text \<open>An agent for running the model: two candidate paths from switch 1 to switch 3.\<close>

definition example_agent :: agent where
  "example_agent =
     \<lparr>state_size = 2, learning_rate = 1/2, discount_factor = 9/10, save_interval = 10,
      possible_paths =
        [(''1->3'', [JList [JInt 1, JInt 2, JInt 3], JList [JInt 1, JInt 3]])],
      q_table = [(''[1, 2, 3]'', [4, 8]), (''[1, 3]'', [0, 0])],
      model = (\<lambda>v. if length v = 2 then Some 0 else None),
      recent_rewards = [], total_steps = 0, saved_models = []\<rparr>"

text \<open>
  A controller for running the model: three switches in a line, hosts at both ends, an
  agent that never answers, and a shortest-path function that knows the line.
\<close>

definition example_topology :: topology_info where
  "example_topology =
     \<lparr>switches = [(''s1'', \<lparr>dpid = 1, ports = [(''h1'', 1), (''s2'', 2)]\<rparr>),
                  (''s2'', \<lparr>dpid = 2, ports = [(''s1'', 2), (''s3'', 3)]\<rparr>),
                  (''s3'', \<lparr>dpid = 3, ports = [(''h3'', 1), (''s2'', 2)]\<rparr>)],
      hosts = [(''h1'', \<lparr>ip = ''10.0.0.1'', mac = ''00:00:00:00:00:01'', connected_to = ''s1''\<rparr>),
               (''h3'', \<lparr>ip = ''10.0.0.3'', mac = ''00:00:00:00:00:03'', connected_to = ''s3''\<rparr>)],
      links = [\<lparr>src = ''h1'', dst = ''s1'', port = 1\<rparr>, \<lparr>src = ''h3'', dst = ''s3'', port = 1\<rparr>,
               \<lparr>src = ''s1'', dst = ''s2'', port = 2\<rparr>, \<lparr>src = ''s2'', dst = ''s3'', port = 3\<rparr>]\<rparr>"

definition example_env :: env where
  "example_env =
     \<lparr>str_match = (\<lambda>m. (case ipv4_src m of None \<Rightarrow> [] | Some a \<Rightarrow> a) @ ''>''
                         @ (case ipv4_dst m of None \<Rightarrow> [] | Some a \<Rightarrow> a)),
      str_actions = map (\<lambda>a. case a of OFPActionOutput p \<Rightarrow> if p = 2 then CHR ''2'' else CHR ''p''),
      str_action = (\<lambda>a. case a of OFPActionOutput p \<Rightarrow> if p = 2 then ''2'' else ''p''),
      nx_shortest_path = (\<lambda>g s d.
         if s \<in> set (nodes g) \<and> d \<in> set (nodes g)
         then (if s = 1 \<and> d = 3 then SPath [1, 2, 3] else NetworkXNoPath)
         else NXNodeNotFound),
      topology_file = Some example_topology,
      agent_get_path = (\<lambda>s d network_state. AgentFailed),
      agent_stats = None\<rparr>"

definition example_controller :: controller where
  "example_controller =
     \<lparr>mac_to_port = [(1, [(''00:00:00:00:00:03'', 2)])],
      topology_graph = \<lparr>nodes = [1, 2, 3], edges = [((1, 2), 2), ((2, 3), 3)]\<rparr>,
      datapaths = [(1, \<lparr>dp_id = 1\<rparr>), (2, \<lparr>dp_id = 2\<rparr>), (3, \<lparr>dp_id = 3\<rparr>)],
      flow_count = 0, flows = [], existing_flows = [], sent = []\<rparr>"

definition example_packet_in :: packet_in where
  "example_packet_in =
     \<lparr>pi_datapath = \<lparr>dp_id = 1\<rparr>, in_port = 1, eth_src = ''00:00:00:00:00:01'',
      eth_dst = ''00:00:00:00:00:03'', ethertype = 0x0800,
      ip_pkt = Some (''10.0.0.1'', ''10.0.0.3''), buffer_id = 7, pkt_data = []\<rparr>"

text \<open>
  What the loops of \<^verbatim>\<open>generate_topology_info\<close> keep: the switch names and dpids of
  the descriptor under construction, and the keys of the port counters.
\<close>

definition grid_inv :: "nat \<Rightarrow> topology_info \<times> (string \<times> int) list \<Rightarrow> bool" where
  "grid_inv n st =
     (case st of (topo, pc) \<Rightarrow>
        map fst (switches topo) = map sname [1..<n * n + 1]
        \<and> map (\<lambda>(name, sw). dpid sw) (switches topo) = map int [1..<n * n + 1]
        \<and> map fst pc = map sname [1..<n * n + 1])"

section \<open>Properties of the string functions\<close>

lemma find_idx_absent: "c \<notin> set xs \<Longrightarrow> find_idx [c] xs = None"
  by (induction xs) auto

lemma split_go_no_sep: "c \<notin> set xs \<Longrightarrow> split_go [c] acc xs = [rev acc @ xs]"
  by (induction xs arbitrary: acc) auto

lemma contains_append_left: "contains sub ys \<Longrightarrow> contains sub (xs @ ys)"
  by (induction xs) auto

lemma contains_find_idx: "contains sub s \<longleftrightarrow> find_idx sub s \<noteq> None"
  by (induction s) auto

lemma find_idx_bound: "find_idx sub s = Some i \<Longrightarrow> i + length sub \<le> length s"
proof (induction s arbitrary: i)
  case Nil
  then show ?case by (simp split: if_splits)
next
  case (Cons c cs)
  show ?case
  proof (cases "prefix sub (c # cs)")
    case True
    then show ?thesis using Cons.prems by (auto dest: prefix_length_le)
  next
    case False
    then obtain j where "find_idx sub cs = Some j" "i = Suc j" using Cons.prems by auto
    then show ?thesis using Cons.IH [of j] by simp
  qed
qed

lemma find_idx_append:
  assumes "\<not> contains tok pre"
    and "\<forall>us. suffix us tok \<longrightarrow> us \<noteq> [] \<longrightarrow> us \<noteq> tok \<longrightarrow> \<not> prefix us s"
  shows "find_idx tok (pre @ s) = map_option (\<lambda>i. length pre + i) (find_idx tok s)"
  using assms(1)
proof (induction pre)
  case Nil
  show ?case by (simp add: option.map_ident)
next
  case (Cons c cs)
  have np: "\<not> prefix tok (c # cs)" and nc: "\<not> contains tok cs" using Cons.prems by auto
  have "\<not> prefix tok ((c # cs) @ s)"
  proof
    assume "prefix tok ((c # cs) @ s)"
    then have "prefix tok (c # cs) \<or> (\<exists>us. tok = (c # cs) @ us \<and> prefix us s)"
      by (simp only: prefix_append)
    then obtain us where us: "tok = (c # cs) @ us" "prefix us s"
      using np by blast
    have "us \<noteq> []" using us(1) np by auto
    moreover have "suffix us tok" using us(1) by (auto simp: suffix_def)
    moreover have "us \<noteq> tok" using us(1) by auto
    ultimately show False using assms(2) us(2) by blast
  qed
  then show ?case using Cons.IH [OF nc] by (simp add: option.map_comp comp_def)
qed

text \<open>The source's extraction follows the rule in the words of the specification.\<close>

lemma extract_count_rule:
  "extract_count token l =
     (case find_idx token l of
        None \<Rightarrow> None
      | Some i \<Rightarrow>
          (case text_to_comma_or_space (drop (i + length token) l) of
             None \<Rightarrow> None
           | Some t \<Rightarrow> py_int t))"
proof (cases "find_idx token l")
  case None
  then show ?thesis by (simp add: extract_count_def contains_find_idx)
next
  case (Some i)
  have b: "i + length token \<le> length l" using find_idx_bound [OF Some] .
  have f0: "find l token 0 = Some i" using Some by (simp add: find_def option.map_ident)
  have fc: "find l sep (i + length token) =
      map_option (\<lambda>k. i + length token + k) (find_idx sep (drop (i + length token) l))" for sep
    using b by (simp add: find_def)
  show ?thesis
    unfolding extract_count_def text_to_comma_or_space_def
    using Some f0 b
    by (simp add: contains_find_idx fc slice_def Let_def split: option.splits)
qed

lemma no_straddle:
  "\<forall>us. suffix us ''n_packets='' \<longrightarrow> us \<noteq> [] \<longrightarrow> us \<noteq> ''n_packets=''
      \<longrightarrow> \<not> prefix us (''priority=10,n_packets=42,n_bytes=1000'' @ post)"
  "\<forall>us. suffix us ''n_bytes='' \<longrightarrow> us \<noteq> [] \<longrightarrow> us \<noteq> ''n_bytes=''
      \<longrightarrow> \<not> prefix us (''priority=10,n_packets=42,n_bytes=1000'' @ post)"
  by (auto simp: in_set_suffixes [symmetric])

section \<open>The parsers of the monitor\<close>

text \<open>
  C6. On the port-statistics line of the specification the parser stores, for port 1,
  the receive-side packet count under the key \<open>rx_rx pkts\<close>: the first token of the
  receive side still carries the text \<open>rx \<close>, while the transmit side is cut after
  its \<open>tx\<close>. There is no entry \<open>rx_pkts\<close>; the other nine entries are as the
  specification lists them.
\<close>

theorem parse_port_stats_spec_line:
  "parse_port_stats
     ''port  1: rx pkts=123, bytes=456, drop=0, errs=0, frame=0, over=0, crc=0, tx pkts=10, bytes=20, drop=1''
   = [(1, [(''rx_rx pkts'', 123), (''rx_bytes'', 456), (''rx_drop'', 0), (''rx_errs'', 0),
           (''rx_frame'', 0), (''rx_over'', 0), (''rx_crc'', 0),
           (''tx_pkts'', 10), (''tx_bytes'', 20), (''tx_drop'', 1)])]"
  by code_simp

text \<open>
  C7, as stated, fails: on the line that consists of
  \<open>priority=10,n_packets=42,n_bytes=1000\<close> alone, neither a comma nor a space follows
  the byte count, and the record has no \<open>n_bytes\<close>.
\<close>

theorem parse_flow_stats_bare_line:
  "parse_flow_stats 0 ''priority=10,n_packets=42,n_bytes=1000'' =
     [\<lparr>line = ''priority=10,n_packets=42,n_bytes=1000'', timestamp = 0,
       n_packets = Some 42, n_bytes = None\<rparr>]"
  by (simp add: parse_flow_stats_def extract_count_def find_def slice_def py_int_def
      py_nat_def strip_def is_space_def digits_val_def digit_val_def is_digit_def)

text \<open>
  C7, amended. Take a line that contains \<open>priority=10,n_packets=42,n_bytes=1000\<close>, with
  no \<open>n_packets=\<close> and no \<open>n_bytes=\<close> before it. It yields one flow record with
  \<open>n_packets = 42\<close>, and with \<open>n_bytes\<close> the integer read from the text between
  \<open>n_bytes=\<close> and the next comma, or the next space when no comma follows. So
  \<open>n_bytes = 1000\<close> when a comma follows the byte count, and when a space follows it
  and the rest of the line has no comma; when neither a comma nor a space follows the
  byte count, the record has no \<open>n_bytes\<close>.
\<close>

theorem parse_flow_stats_counts:
  assumes pre: "\<not> contains ''n_packets='' pre" "\<not> contains ''n_bytes='' pre"
      "CHR 0x0A \<notin> set pre"
    and post: "CHR 0x0A \<notin> set post"
  shows "let flows = parse_flow_stats now (pre @ ''priority=10,n_packets=42,n_bytes=1000'' @ post)
    in flows =
        [\<lparr>line = strip (pre @ ''priority=10,n_packets=42,n_bytes=1000'' @ post),
          timestamp = now, n_packets = Some 42,
          n_bytes = (case text_to_comma_or_space (''1000'' @ post) of
                       None \<Rightarrow> None
                     | Some t \<Rightarrow> py_int t)\<rparr>]
     \<and> (take 1 post = '','' \<longrightarrow> map n_bytes flows = [Some 1000])
     \<and> (take 1 post = '' '' \<and> CHR '','' \<notin> set post \<longrightarrow> map n_bytes flows = [Some 1000])
     \<and> (CHR '','' \<notin> set post \<and> CHR '' '' \<notin> set post \<longrightarrow> map n_bytes flows = [None])"
proof -
  define s where "s = ''priority=10,n_packets=42,n_bytes=1000'' @ post"
  define b where "b = (case text_to_comma_or_space (''1000'' @ post) of
                         None \<Rightarrow> None
                       | Some t \<Rightarrow> py_int t)"
  have nl: "CHR 0x0A \<notin> set (pre @ s)" using pre(3) post by (auto simp: s_def)
  have lines: "split_go [CHR 0x0A] [] (pre @ s) = [pre @ s]"
    using split_go_no_sep [OF nl, of "[]"] by simp
  have c: "contains ''priority'' (pre @ s)" "contains ''n_packets'' (pre @ s)"
    by (rule contains_append_left, simp add: s_def)+
  have f1: "find_idx ''n_packets='' (pre @ s) = Some (length pre + 12)"
    using find_idx_append [OF pre(1) no_straddle(1) [of post]] by (simp add: s_def)
  have f2: "find_idx ''n_bytes='' (pre @ s) = Some (length pre + 25)"
    using find_idx_append [OF pre(2) no_straddle(2) [of post]] by (simp add: s_def)
  have i: "py_int ''42'' = Some 42" "py_int ''1000'' = Some 1000" by code_simp+
  have x1: "extract_count ''n_packets='' (pre @ s) = Some 42"
    unfolding extract_count_rule f1
    by (simp add: s_def text_to_comma_or_space_def i(1))
  have x2: "extract_count ''n_bytes='' (pre @ s) = b"
    unfolding extract_count_rule f2 by (simp add: s_def b_def)
  have flows: "parse_flow_stats now (pre @ s) =
    [\<lparr>line = strip (pre @ s), timestamp = now, n_packets = Some 42, n_bytes = b\<rparr>]"
    unfolding parse_flow_stats_def lines using c x1 x2 by simp
  have comma: "b = Some 1000" if h: "take 1 post = '',''"
  proof -
    obtain rest where "post = CHR '','' # rest" using h by (cases post) auto
    then show ?thesis by (simp add: b_def text_to_comma_or_space_def i(2))
  qed
  have space: "b = Some 1000" if h: "take 1 post = '' ''" "CHR '','' \<notin> set post"
  proof -
    obtain rest where r: "post = CHR '' '' # rest" using h(1) by (cases post) auto
    have "find_idx '','' (''1000'' @ post) = None"
      by (rule find_idx_absent) (use h(2) in simp)
    then show ?thesis using r by (simp add: b_def text_to_comma_or_space_def i(2))
  qed
  have neither: "b = None" if "CHR '','' \<notin> set post" "CHR '' '' \<notin> set post"
  proof -
    have "find_idx '','' (''1000'' @ post) = None"
      by (rule find_idx_absent) (use that(1) in simp)
    moreover have "find_idx '' '' (''1000'' @ post) = None"
      by (rule find_idx_absent) (use that(2) in simp)
    ultimately show ?thesis by (simp add: b_def text_to_comma_or_space_def)
  qed
  show ?thesis
    unfolding Let_def s_def [symmetric] b_def [symmetric] flows
    using comma space neither by simp
qed

theorem parse_flow_stats_counts_witness:
  "parse_flow_stats 0
     '' cookie=0x0, duration=1.2s, table=0, priority=10,n_packets=42,n_bytes=1000, idle_age=3 actions=output:1''
   = [\<lparr>line = ''cookie=0x0, duration=1.2s, table=0, priority=10,n_packets=42,n_bytes=1000, idle_age=3 actions=output:1'',
        timestamp = 0, n_packets = Some 42, n_bytes = Some 1000\<rparr>]
   \<and> map n_bytes (parse_flow_stats 0
        '' cookie=0x0, duration=1.2s, table=0, priority=10,n_packets=42,n_bytes=1000 actions=output:1'')
     = [Some 1000]
   \<and> map n_bytes (parse_flow_stats 0
        '' cookie=0x0, duration=1.2s, table=0, priority=10,n_packets=42,n_bytes=1000'')
     = [None]"
  using parse_flow_stats_counts
      [of "'' cookie=0x0, duration=1.2s, table=0, ''" "'', idle_age=3 actions=output:1''" 0]
    parse_flow_stats_counts
      [of "'' cookie=0x0, duration=1.2s, table=0, ''" "'' actions=output:1''" 0]
    parse_flow_stats_counts
      [of "'' cookie=0x0, duration=1.2s, table=0, ''" "[]" 0]
  by (simp add: Let_def strip_def is_space_def text_to_comma_or_space_def py_int_def
      py_nat_def digits_val_def digit_val_def is_digit_def)

section \<open>The performance report\<close>

lemma jitter_samples_poll_step: "jitter_samples (poll_step pm p) = jitter_samples pm"
  by (cases "(pm, p)" rule: poll_step.cases) auto

lemma jitter_samples_polls: "jitter_samples (foldl poll_step pm ps) = jitter_samples pm"
  by (induction ps arbitrary: pm) (simp_all add: jitter_samples_poll_step)

text \<open>
  C9. Whatever the pollers have written, the jitter series is empty, and the report's
  statistics for it are the dictionary of the empty-series branch: average, minimum,
  maximum and standard deviation are zero, and there is no \<open>count\<close> entry, where the
  branch for a series with samples has one.
\<close>

theorem jitter_stats_have_no_count:
  "map_of (network_performance (foldl poll_step initial_metrics polls)) ''jitter_ms''
     = Some (calculate_stats [])
   \<and> calculate_stats [] = [(''avg'', 0), (''min'', 0), (''max'', 0), (''std'', 0)]
   \<and> map_of (calculate_stats []) ''count'' = None
   \<and> map_of (calculate_stats [x]) ''count'' = Some 1"
  by (simp add: network_performance_def jitter_samples_polls initial_metrics_def
      calculate_stats_def)

section \<open>The path-selection agent\<close>


lemma ensure_entry_fields [simp]:
  "model (ensure_entry k ag) = model ag"
  "state_size (ensure_entry k ag) = state_size ag"
  "learning_rate (ensure_entry k ag) = learning_rate ag"
  "discount_factor (ensure_entry k ag) = discount_factor ag"
  "save_interval (ensure_entry k ag) = save_interval ag"
  "possible_paths (ensure_entry k ag) = possible_paths ag"
  "recent_rewards (ensure_entry k ag) = recent_rewards ag"
  "total_steps (ensure_entry k ag) = total_steps ag"
  "saved_models (ensure_entry k ag) = saved_models ag"
  by (simp_all add: ensure_entry_def split: option.splits)

lemma ensure_entry_present: "map_of (q_table ag) k = Some v \<Longrightarrow> ensure_entry k ag = ag"
  by (simp add: ensure_entry_def)

lemma ensure_entry_absent:
  "map_of (q_table ag) k = None \<Longrightarrow>
   map_of (q_table (ensure_entry k ag)) k = Some (np_zeros (state_size ag))"
  by (simp add: ensure_entry_def map_add_def)

lemma score_paths_const:
  "model ag v = Some q \<Longrightarrow>
   fst (score_paths py_str v paths qs ag) = Inr (qs @ replicate (length paths) q)"
proof (induction paths arbitrary: qs ag)
  case Nil
  then show ?case by simp
next
  case (Cons p ps)
  have "model (ensure_entry (py_str p) ag) v = Some q" using Cons.prems by simp
  from Cons.IH [OF this, of "qs @ [q]"] Cons.prems show ?case
    by (simp add: Let_def replicate_app_Cons_same)
qed

lemma argmax_go_const: "argmax_go bi b i (replicate n b) = bi"
  by (induction n arbitrary: i) simp_all

lemma np_argmax_const: "0 < n \<Longrightarrow> np_argmax (replicate n q) = Inr 0"
  by (cases n) (simp_all add: argmax_go_const)

text \<open>
  C2. When the pair \<open>src->dst\<close> has a non-empty candidate list and the model answers
  for the state vector, every candidate gets the same value (the model sees the state
  only), the first index of the maximum is 0, and \<open>get_action\<close> returns the first
  candidate with action index 0.
\<close>

theorem get_action_first_candidate:
  assumes "map_of (possible_paths ag) (py_str s @ ''->'' @ py_str d) = Some paths"
    and "paths \<noteq> []"
    and "as_vector state = Some v"
    and "model ag v = Some q"
  shows "fst (score_paths py_str v paths [] ag) = Inr (replicate (length paths) q)
       \<and> np_argmax (replicate (length paths) q) = Inr 0
       \<and> fst (get_action py_str state s d ag) = Inr (Some (hd paths, 0))"
proof -
  have sc: "fst (score_paths py_str v paths [] ag) = Inr (replicate (length paths) q)"
    using score_paths_const [OF assms(4), of py_str paths "[]"] by simp
  have am: "np_argmax (replicate (length paths) q) = Inr 0"
    using assms(2) by (simp add: np_argmax_const)
  obtain r ag1 where r: "score_paths py_str v paths [] ag = (r, ag1)" by (cases "score_paths py_str v paths [] ag")
  with sc have r': "r = Inr (replicate (length paths) q)" by simp
  have "fst (get_action py_str state s d ag) = Inr (Some (hd paths, 0))"
    using assms(1,2,3) r r' am by (simp add: get_action_def hd_conv_nth)
  with sc am show ?thesis by simp
qed

theorem get_action_first_candidate_witness:
  "fst (score_paths str_basic [1, 2] [JList [JInt 1, JInt 2, JInt 3], JList [JInt 1, JInt 3]] []
          example_agent) = Inr [0, 0]
   \<and> fst (get_action str_basic (JList [JInt 1, JInt 2]) (JStr ''1'') (JStr ''3'') example_agent)
       = Inr (Some (JList [JInt 1, JInt 2, JInt 3], 0))"
proof -
  have h1: "map_of (possible_paths example_agent) (str_basic (JStr ''1'') @ ''->'' @ str_basic (JStr ''3''))
      = Some [JList [JInt 1, JInt 2, JInt 3], JList [JInt 1, JInt 3]]"
    by (simp add: example_agent_def)
  have h2: "[JList [JInt 1, JInt 2, JInt 3], JList [JInt 1, JInt 3]] \<noteq> []" by simp
  have h3: "as_vector (JList [JInt 1, JInt 2]) = Some [1, 2]" by simp
  have h4: "model example_agent [1, 2] = Some 0" by (simp add: example_agent_def)
  show ?thesis
    using get_action_first_candidate [where py_str = str_basic and s = "JStr ''1''"
        and d = "JStr ''3''", OF h1 h2 h3 h4]
    by (simp add: numeral_2_eq_2)
qed

lemma fold_max_const: "fold (\<lambda>y m. if m < y then y else m) (map (\<lambda>p. m) xs) (m::real) = m"
  by (induction xs) simp_all

lemma py_max_const: "xs \<noteq> [] \<Longrightarrow> py_max (map (\<lambda>p. m) xs) = Inr m"
  by (cases xs) (simp_all add: fold_max_const)

lemma ensure_entry_lookup:
  "map_of (q_table (ensure_entry k ag)) k =
     Some (case map_of (q_table ag) k of None \<Rightarrow> np_zeros (state_size ag) | Some v \<Rightarrow> v)"
  by (cases "map_of (q_table ag) k") (simp_all add: ensure_entry_absent ensure_entry_present)

lemma number_shape: "number x = Some r \<Longrightarrow> np_shape x = Some []"
  by (cases x) auto

lemma as_vector_shape:
  assumes "as_vector state = Some s"
  shows "\<exists>state_shape. np_shape state = Some state_shape"
proof (cases state)
  case (JList xs)
  have n: "\<forall>x \<in> set xs. np_shape x = Some []"
    using assms JList by (auto simp: list_all_iff number_shape split: if_splits)
  show ?thesis
  proof (cases xs)
    case Nil
    then show ?thesis using JList by simp
  next
    case (Cons y ys)
    then show ?thesis using JList n by (simp add: list_all_iff)
  qed
qed (use assms in auto)

lemma update_q_table_success:
  assumes "np_shape state = Some state_shape" and "as_vector next_state = Some ns"
    and "model ag ns = Some m" and "reward_value reward = Inr r"
    and "save_interval ag \<noteq> 0"
  shows "fst (update_q_table py_str state action reward next_state ag) = None
     \<and> total_steps (snd (update_q_table py_str state action reward next_state ag))
         = total_steps ag + 1
     \<and> recent_rewards (snd (update_q_table py_str state action reward next_state ag))
         = recent_rewards ag @ [reward]
     \<and> map_of (q_table (snd (update_q_table py_str state action reward next_state ag)))
         (py_str action)
       = Some (blend (learning_rate ag) (discount_factor ag) r m
                (case map_of (q_table ag) (py_str action) of
                   None \<Rightarrow> np_zeros (state_size ag) | Some v \<Rightarrow> v))"
proof -
  let ?a = "ensure_entry (py_str action) ag"
  have l: "map_of (q_table ?a) (py_str action) =
     Some (case map_of (q_table ag) (py_str action) of
             None \<Rightarrow> np_zeros (state_size ag) | Some v \<Rightarrow> v)"
    by (rule ensure_entry_lookup)
  then have ne: "q_table ?a \<noteq> []" by auto
  show ?thesis
    using assms l py_max_const [OF ne, of m]
    by (simp add: update_q_table_def Let_def update_conv')
qed

text \<open>
  C5. For a request body that is a JSON object: when its \<open>state\<close> is not a list of
  length \<open>state_size\<close>, and also when its pair \<open>src->dst\<close> is not a key of the
  possible-paths table, \<open>get_path\<close> answers 400 and the agent (the value table
  included) is as before.
\<close>

theorem get_path_rejects:
  "(\<not> is_list_of_length (case map_of kvs ''state'' of None \<Rightarrow> JNull | Some v \<Rightarrow> v)
         (state_size ag) \<longrightarrow>
      (\<exists>msg. get_path py_str (JObj kvs) ag = ((400, ErrorText msg), ag)))
   \<and> (map_of (possible_paths ag)
         (py_str (case map_of kvs ''src'' of None \<Rightarrow> JNull | Some v \<Rightarrow> v) @ ''->'' @
          py_str (case map_of kvs ''dst'' of None \<Rightarrow> JNull | Some v \<Rightarrow> v)) = None \<longrightarrow>
      (\<exists>msg. get_path py_str (JObj kvs) ag = ((400, ErrorText msg), ag)))"
  by (simp add: get_path_def Let_def)

theorem get_path_rejects_witness:
  "(\<not> is_list_of_length (JList [JInt 1]) (state_size example_agent)
    \<and> (\<exists>msg. get_path str_basic
          (JObj [(''src'', JStr ''1''), (''dst'', JStr ''3''), (''state'', JList [JInt 1])])
          example_agent = ((400, ErrorText msg), example_agent)))
   \<and> (map_of (possible_paths example_agent) ''1->9'' = None
    \<and> (\<exists>msg. get_path str_basic
          (JObj [(''src'', JStr ''1''), (''dst'', JStr ''9''), (''state'', JList [JInt 1, JInt 2])])
          example_agent = ((400, ErrorText msg), example_agent)))"
  using get_path_rejects [where py_str = str_basic and ag = example_agent
      and kvs = "[(''src'', JStr ''1''), (''dst'', JStr ''3''), (''state'', JList [JInt 1])]"]
    get_path_rejects [where py_str = str_basic and ag = example_agent
      and kvs = "[(''src'', JStr ''1''), (''dst'', JStr ''9''), (''state'', JList [JInt 1, JInt 2])]"]
  by (simp add: example_agent_def)

text \<open>
  C10. An \<open>update\<close> request whose \<open>action\<close> is a falsy JSON value is answered
  400 \<open>Missing required fields\<close> and leaves the agent as it was, whatever the other
  fields hold. A request with reward 0, a truthy action and state vectors of the right
  length is accepted: the answer is 200, the step counter grows by one, the reward is
  appended, and the action's entry is blended.
\<close>

theorem update_falsy_action_rejected:
  "(\<not> truthy (case map_of kvs ''action'' of None \<Rightarrow> JNull | Some v \<Rightarrow> v) \<longrightarrow>
      update py_str (JObj kvs) ag = ((400, ErrorText ''Missing required fields''), ag))
   \<and> (map_of kvs ''action'' = Some action \<and> truthy action
      \<and> map_of kvs ''reward'' = Some (JInt 0)
      \<and> map_of kvs ''state'' = Some state \<and> is_list_of_length state (state_size ag)
      \<and> map_of kvs ''next_state'' = Some next_state
      \<and> is_list_of_length next_state (state_size ag)
      \<and> 0 < state_size ag
      \<and> as_vector state = Some s \<and> as_vector next_state = Some ns
      \<and> model ag ns = Some m \<and> save_interval ag \<noteq> 0 \<longrightarrow>
      fst (update py_str (JObj kvs) ag) = (200, StatusSuccess)
      \<and> total_steps (snd (update py_str (JObj kvs) ag)) = total_steps ag + 1
      \<and> recent_rewards (snd (update py_str (JObj kvs) ag)) = recent_rewards ag @ [JInt 0]
      \<and> map_of (q_table (snd (update py_str (JObj kvs) ag))) (py_str action)
          = Some (blend (learning_rate ag) (discount_factor ag) 0 m
                   (case map_of (q_table ag) (py_str action) of
                      None \<Rightarrow> np_zeros (state_size ag) | Some v \<Rightarrow> v)))"
proof (intro conjI impI)
  assume "\<not> truthy (case map_of kvs ''action'' of None \<Rightarrow> JNull | Some v \<Rightarrow> v)"
  then show "update py_str (JObj kvs) ag = ((400, ErrorText ''Missing required fields''), ag)"
    by (simp add: update_def)
next
  assume a: "map_of kvs ''action'' = Some action \<and> truthy action
      \<and> map_of kvs ''reward'' = Some (JInt 0)
      \<and> map_of kvs ''state'' = Some state \<and> is_list_of_length state (state_size ag)
      \<and> map_of kvs ''next_state'' = Some next_state
      \<and> is_list_of_length next_state (state_size ag)
      \<and> 0 < state_size ag
      \<and> as_vector state = Some s \<and> as_vector next_state = Some ns
      \<and> model ag ns = Some m \<and> save_interval ag \<noteq> 0"
  have ts: "truthy state" "truthy next_state"
    using a by (cases state; cases next_state; auto)+
  have r: "reward_value (JInt 0) = Inr 0" by simp
  obtain state_shape where sh: "np_shape state = Some state_shape"
    using a as_vector_shape [of state s] by blast
  note u = update_q_table_success [where py_str = py_str and action = action and state = state
      and next_state = next_state and reward = "JInt 0" and ag = ag and m = m and r = 0
      and state_shape = state_shape]
  have u': "fst (update_q_table py_str state action (JInt 0) next_state ag) = None
     \<and> total_steps (snd (update_q_table py_str state action (JInt 0) next_state ag))
         = total_steps ag + 1
     \<and> recent_rewards (snd (update_q_table py_str state action (JInt 0) next_state ag))
         = recent_rewards ag @ [JInt 0]
     \<and> map_of (q_table (snd (update_q_table py_str state action (JInt 0) next_state ag)))
         (py_str action)
       = Some (blend (learning_rate ag) (discount_factor ag) 0 m
                (case map_of (q_table ag) (py_str action) of
                   None \<Rightarrow> np_zeros (state_size ag) | Some v \<Rightarrow> v))"
    using u sh a r by blast
  obtain err ag1 where e: "update_q_table py_str state action (JInt 0) next_state ag = (err, ag1)"
    by (cases "update_q_table py_str state action (JInt 0) next_state ag")
  have up: "update py_str (JObj kvs) ag = ((200, StatusSuccess), ag1)"
    using a ts e u' by (simp add: update_def)
  show "fst (update py_str (JObj kvs) ag) = (200, StatusSuccess)" using up by simp
  show "total_steps (snd (update py_str (JObj kvs) ag)) = total_steps ag + 1"
    using up e u' by simp
  show "recent_rewards (snd (update py_str (JObj kvs) ag)) = recent_rewards ag @ [JInt 0]"
    using up e u' by simp
  show "map_of (q_table (snd (update py_str (JObj kvs) ag))) (py_str action)
          = Some (blend (learning_rate ag) (discount_factor ag) 0 m
                   (case map_of (q_table ag) (py_str action) of
                      None \<Rightarrow> np_zeros (state_size ag) | Some v \<Rightarrow> v))"
    using up e u' by simp
qed

theorem update_falsy_action_rejected_witness:
  "update str_basic
     (JObj [(''state'', JList [JInt 1, JInt 2]), (''action'', JInt 0), (''reward'', JInt 1),
            (''next_state'', JList [JInt 3, JInt 4])]) example_agent
     = ((400, ErrorText ''Missing required fields''), example_agent)
   \<and> update str_basic
     (JObj [(''state'', JList [JInt 1, JInt 2]), (''action'', JStr []), (''reward'', JInt 1),
            (''next_state'', JList [JInt 3, JInt 4])]) example_agent
     = ((400, ErrorText ''Missing required fields''), example_agent)
   \<and> fst (update str_basic
     (JObj [(''state'', JList [JInt 1, JInt 2]), (''action'', JStr ''[1, 2, 3]''),
            (''reward'', JInt 0), (''next_state'', JList [JInt 3, JInt 4])]) example_agent)
     = (200, StatusSuccess)
   \<and> map_of (q_table (snd (update str_basic
     (JObj [(''state'', JList [JInt 1, JInt 2]), (''action'', JStr ''[1, 2, 3]''),
            (''reward'', JInt 0), (''next_state'', JList [JInt 3, JInt 4])]) example_agent)))
       ''[1, 2, 3]'' = Some [2, 4]"
proof -
  note t = update_falsy_action_rejected [where py_str = str_basic and ag = example_agent]
  have a: "update str_basic
     (JObj [(''state'', JList [JInt 1, JInt 2]), (''action'', JInt 0), (''reward'', JInt 1),
            (''next_state'', JList [JInt 3, JInt 4])]) example_agent
     = ((400, ErrorText ''Missing required fields''), example_agent)"
    using t [where kvs = "[(''state'', JList [JInt 1, JInt 2]),
      (''action'', JInt 0), (''reward'', JInt 1), (''next_state'', JList [JInt 3, JInt 4])]",
      THEN conjunct1]
    by simp
  have b: "update str_basic
     (JObj [(''state'', JList [JInt 1, JInt 2]), (''action'', JStr []), (''reward'', JInt 1),
            (''next_state'', JList [JInt 3, JInt 4])]) example_agent
     = ((400, ErrorText ''Missing required fields''), example_agent)"
    using t [where kvs = "[(''state'', JList [JInt 1, JInt 2]),
      (''action'', JStr []), (''reward'', JInt 1), (''next_state'', JList [JInt 3, JInt 4])]",
      THEN conjunct1]
    by simp
  have c: "fst (update str_basic
     (JObj [(''state'', JList [JInt 1, JInt 2]), (''action'', JStr ''[1, 2, 3]''),
            (''reward'', JInt 0), (''next_state'', JList [JInt 3, JInt 4])]) example_agent)
     = (200, StatusSuccess)
   \<and> map_of (q_table (snd (update str_basic
     (JObj [(''state'', JList [JInt 1, JInt 2]), (''action'', JStr ''[1, 2, 3]''),
            (''reward'', JInt 0), (''next_state'', JList [JInt 3, JInt 4])]) example_agent)))
       ''[1, 2, 3]'' = Some [2, 4]"
    using t [where kvs = "[(''state'', JList [JInt 1, JInt 2]),
      (''action'', JStr ''[1, 2, 3]''), (''reward'', JInt 0),
      (''next_state'', JList [JInt 3, JInt 4])]" and action = "JStr ''[1, 2, 3]''"
      and state = "JList [JInt 1, JInt 2]" and next_state = "JList [JInt 3, JInt 4]"
      and s = "[1, 2]" and ns = "[3, 4]" and m = 0, THEN conjunct2]
    by (simp add: example_agent_def blend_def)
  from a b c show ?thesis by simp
qed

section \<open>The forwarding controller\<close>

lemma add_flow_known:
  "(dp_id dp, str_match e m, str_actions e acts) \<in> set (existing_flows st) \<Longrightarrow>
   add_flow e dp prio m acts idle hard st = st"
  by (simp add: add_flow_def Let_def)

lemma add_flow_keys:
  "(dp_id dp, str_match e m, str_actions e acts)
     \<in> set (existing_flows (add_flow e dp prio m acts idle hard st))"
  by (simp add: add_flow_def Let_def)

text \<open>
  C4. Two calls of \<open>add_flow\<close> with the same key (datapath id, text of the match, text
  of the actions), the key not being installed before: the second call changes nothing,
  and after it the flow count is one more than at the start, one flow record has been
  appended and one flow-mod has been sent. Priority and timeouts of the second call
  play no part.
\<close>

theorem add_flow_twice:
  assumes "(dp_id dp, str_match e m, str_actions e acts) \<notin> set (existing_flows st)"
    and "dp_id dp' = dp_id dp" and "str_match e m' = str_match e m"
    and "str_actions e acts' = str_actions e acts"
  shows "add_flow e dp' prio' m' acts' idle' hard' (add_flow e dp prio m acts idle hard st)
           = add_flow e dp prio m acts idle hard st
       \<and> flow_count (add_flow e dp' prio' m' acts' idle' hard'
                        (add_flow e dp prio m acts idle hard st)) = flow_count st + 1
       \<and> flows (add_flow e dp' prio' m' acts' idle' hard'
                   (add_flow e dp prio m acts idle hard st))
           = flows st @
             [\<lparr>flow_dpid = dp_id dp,
               flow_src_ip = (case ipv4_src m of None \<Rightarrow> ''unknown'' | Some a \<Rightarrow> a),
               flow_dst_ip = (case ipv4_dst m of None \<Rightarrow> ''unknown'' | Some a \<Rightarrow> a),
               flow_actions = map (str_action e) acts\<rparr>]
       \<and> sent (add_flow e dp' prio' m' acts' idle' hard'
                  (add_flow e dp prio m acts idle hard st))
           = sent st @ [(dp_id dp, OFPFlowMod prio m acts idle hard)]"
proof -
  have k: "(dp_id dp', str_match e m', str_actions e acts')
      \<in> set (existing_flows (add_flow e dp prio m acts idle hard st))"
    using add_flow_keys [of dp e m acts prio idle hard st] assms(2,3,4) by simp
  have same: "add_flow e dp' prio' m' acts' idle' hard' (add_flow e dp prio m acts idle hard st)
      = add_flow e dp prio m acts idle hard st"
    using k by (rule add_flow_known)
  show ?thesis unfolding same using assms(1) by (simp add: add_flow_def Let_def)
qed

theorem add_flow_twice_witness:
  "flow_count (add_flow example_env \<lparr>dp_id = 1\<rparr> 10
       \<lparr>eth_type = Some 0x0800, ipv4_src = Some ''10.0.0.1'', ipv4_dst = Some ''10.0.0.3'',
        ip_proto = Some 6\<rparr> [OFPActionOutput 2] 120 300
     (add_flow example_env \<lparr>dp_id = 1\<rparr> 10
       \<lparr>eth_type = Some 0x0800, ipv4_src = Some ''10.0.0.1'', ipv4_dst = Some ''10.0.0.3'',
        ip_proto = Some 6\<rparr> [OFPActionOutput 2] 120 300 example_controller)) = 1
   \<and> length (flows (add_flow example_env \<lparr>dp_id = 1\<rparr> 10
       \<lparr>eth_type = Some 0x0800, ipv4_src = Some ''10.0.0.1'', ipv4_dst = Some ''10.0.0.3'',
        ip_proto = Some 6\<rparr> [OFPActionOutput 2] 120 300
     (add_flow example_env \<lparr>dp_id = 1\<rparr> 10
       \<lparr>eth_type = Some 0x0800, ipv4_src = Some ''10.0.0.1'', ipv4_dst = Some ''10.0.0.3'',
        ip_proto = Some 6\<rparr> [OFPActionOutput 2] 120 300 example_controller))) = 1"
proof -
  let ?m = "\<lparr>eth_type = Some 0x0800, ipv4_src = Some ''10.0.0.1'', ipv4_dst = Some ''10.0.0.3'',
        ip_proto = Some 6\<rparr>"
  have h: "(dp_id \<lparr>dp_id = 1\<rparr>, str_match example_env ?m, str_actions example_env [OFPActionOutput 2])
      \<notin> set (existing_flows example_controller)"
    by (simp add: example_controller_def)
  have c: "flow_count example_controller = 0" "flows example_controller = []"
    by (simp_all add: example_controller_def)
  show ?thesis
    using add_flow_twice [OF h refl refl refl, of 10 120 300 10 120 300] c
    by (simp add: add_flow_def Let_def example_controller_def example_env_def)
qed



lemma packet_in_fallback:
  assumes "ethertype ev \<noteq> 0x0806"
    and l: "learned = AList.update (eth_src ev) (in_port ev)
          (case map_of (mac_to_port st) (dp_id (pi_datapath ev)) of None \<Rightarrow> [] | Some t \<Rightarrow> t)"
    and sl: "stl = st\<lparr>mac_to_port := AList.update (dp_id (pi_datapath ev)) learned (mac_to_port st)\<rparr>"
    and "map_of learned (eth_dst ev) = Some out_port" and "out_port \<noteq> OFPP_FLOOD"
    and po: "packet_out = (dp_id (pi_datapath ev),
          OFPPacketOut (buffer_id ev) (in_port ev) [OFPActionOutput out_port]
            (if buffer_id ev = OFP_NO_BUFFER then Some (pkt_data ev) else None))"
    and "ip_pkt ev = Some (src_ip, dst_ip)"
    and "get_switch_for_ip e src_ip = Some s" and "get_switch_for_ip e dst_ip = Some d"
    and "s \<noteq> 0" and "d \<noteq> 0"
    and "path_of (request_path_from_rl_agent e s d (get_current_network_state e stl)) = []"
  shows "packet_in_handler e ev st =
        (case nx_shortest_path e (topology_graph st) s d of
           SPath p \<Rightarrow>
             (None, (if p = [] then stl else install_path_flows e p src_ip dst_ip stl)
                      \<lparr>sent := sent (if p = [] then stl
                                     else install_path_flows e p src_ip dst_ip stl)
                               @ [packet_out]\<rparr>)
         | NetworkXNoPath \<Rightarrow> (None, stl\<lparr>sent := sent stl @ [packet_out]\<rparr>)
         | NXNodeNotFound \<Rightarrow> (Some NodeNotFound, stl))"
proof -
  have g: "topology_graph stl = topology_graph st" by (simp add: sl)
  have sp: "get_shortest_path e stl s d =
      (case nx_shortest_path e (topology_graph st) s d of
         SPath path \<Rightarrow> Inr path | NetworkXNoPath \<Rightarrow> Inr [] | NXNodeNotFound \<Rightarrow> Inl NodeNotFound)"
    by (simp add: get_shortest_path_def g)
  have op: "(case map_of learned (eth_dst ev) of Some p \<Rightarrow> p | None \<Rightarrow> OFPP_FLOOD) = out_port"
    using assms(4) by simp
  have "packet_in_handler e ev st =
     (case (case get_shortest_path e stl s d of
              Inl err \<Rightarrow> Inl err
            | Inr path \<Rightarrow> Inr (if path = [] then stl
                               else install_path_flows e path src_ip dst_ip stl)) of
        Inl err \<Rightarrow> (Some err, stl)
      | Inr st2 \<Rightarrow> (None, st2\<lparr>sent := sent st2 @ [packet_out]\<rparr>))"
    unfolding packet_in_handler_def Let_def l [symmetric] sl [symmetric] po op
    using assms(1,5,7,8,9,10,11,12) by simp
  then show ?thesis
    unfolding sp by (cases "nx_shortest_path e (topology_graph st) s d") simp_all
qed


lemma reroute_fallback:
  assumes "get_switch_for_ip e src_ip = Some s" and "get_switch_for_ip e dst_ip = Some d"
    and "s \<noteq> 0" and "d \<noteq> 0"
    and "path_of (request_path_from_rl_agent e s d (get_current_network_state e st)) = []"
  shows "reroute_loop e ((src_ip, dst_ip) # rest) st =
        (case nx_shortest_path e (topology_graph st) s d of
           SPath p \<Rightarrow>
             reroute_loop e rest
               (if p = [] then st else install_path_flows e p src_ip dst_ip st)
         | NetworkXNoPath \<Rightarrow> reroute_loop e rest st
         | NXNodeNotFound \<Rightarrow> (Some NodeNotFound, st))"
  using assms
  by (cases "nx_shortest_path e (topology_graph st) s d")
     (simp_all add: Let_def get_shortest_path_def)

lemma force_path_fallback:
  assumes "req_src_ip req = src_ip" and "req_dst_ip req = dst_ip"
    and "src_ip \<noteq> []" and "dst_ip \<noteq> []"
    and "nodes (topology_graph st) \<noteq> []" and "req_path req = []"
    and "get_switch_for_ip e src_ip = Some s" and "get_switch_for_ip e dst_ip = Some d"
    and "s \<noteq> 0" and "d \<noteq> 0"
    and "path_of (request_path_from_rl_agent e s d (get_current_network_state e st)) = []"
  shows "force_path_installation e req st =
        (case nx_shortest_path e (topology_graph st) s d of
           SPath p \<Rightarrow>
             if p = [] then ((400, ErrorText ''No valid path found''), st)
             else ((200, PathInstalled p), install_path_flows e p src_ip dst_ip st)
         | NetworkXNoPath \<Rightarrow> ((400, ErrorText ''No valid path found''), st)
         | NXNodeNotFound \<Rightarrow> ((500, ErrorOf NodeNotFound), st))"
  using assms
  by (cases "nx_shortest_path e (topology_graph st) s d")
     (simp_all add: force_path_installation_def Let_def get_shortest_path_def)

text \<open>
  C3. When the agent's answer holds no path, the packet-in handler, one round of the
  reroute loop and the force-path request each go on with the answer of
  \<open>nx_shortest_path\<close> on the controller's graph for the same two switches: a path is
  handed to \<open>install_path_flows\<close>; without a path nothing is installed (the packet-in
  handler only sends its packet-out, the force-path request answers 400); a missing
  node leaves the handler with the exception, nothing installed.
\<close>

theorem fallback_shortest_path:
  "(ethertype ev \<noteq> 0x0806
    \<and> learned = AList.update (eth_src ev) (in_port ev)
          (case map_of (mac_to_port st) (dp_id (pi_datapath ev)) of None \<Rightarrow> [] | Some t \<Rightarrow> t)
    \<and> stl = st\<lparr>mac_to_port := AList.update (dp_id (pi_datapath ev)) learned (mac_to_port st)\<rparr>
    \<and> map_of learned (eth_dst ev) = Some out_port \<and> out_port \<noteq> OFPP_FLOOD
    \<and> packet_out = (dp_id (pi_datapath ev),
          OFPPacketOut (buffer_id ev) (in_port ev) [OFPActionOutput out_port]
            (if buffer_id ev = OFP_NO_BUFFER then Some (pkt_data ev) else None))
    \<and> ip_pkt ev = Some (src_ip, dst_ip)
    \<and> get_switch_for_ip e src_ip = Some s \<and> get_switch_for_ip e dst_ip = Some d
    \<and> s \<noteq> 0 \<and> d \<noteq> 0
    \<and> path_of (request_path_from_rl_agent e s d (get_current_network_state e stl)) = []
    \<longrightarrow> packet_in_handler e ev st =
        (case nx_shortest_path e (topology_graph st) s d of
           SPath p \<Rightarrow>
             (None, (if p = [] then stl else install_path_flows e p src_ip dst_ip stl)
                      \<lparr>sent := sent (if p = [] then stl
                                     else install_path_flows e p src_ip dst_ip stl)
                               @ [packet_out]\<rparr>)
         | NetworkXNoPath \<Rightarrow> (None, stl\<lparr>sent := sent stl @ [packet_out]\<rparr>)
         | NXNodeNotFound \<Rightarrow> (Some NodeNotFound, stl)))
   \<and> (get_switch_for_ip e src_ip = Some s \<and> get_switch_for_ip e dst_ip = Some d
    \<and> s \<noteq> 0 \<and> d \<noteq> 0
    \<and> path_of (request_path_from_rl_agent e s d (get_current_network_state e st)) = []
    \<longrightarrow> reroute_loop e ((src_ip, dst_ip) # rest) st =
        (case nx_shortest_path e (topology_graph st) s d of
           SPath p \<Rightarrow>
             reroute_loop e rest
               (if p = [] then st else install_path_flows e p src_ip dst_ip st)
         | NetworkXNoPath \<Rightarrow> reroute_loop e rest st
         | NXNodeNotFound \<Rightarrow> (Some NodeNotFound, st)))
   \<and> (req_src_ip req = src_ip \<and> req_dst_ip req = dst_ip \<and> src_ip \<noteq> [] \<and> dst_ip \<noteq> []
    \<and> nodes (topology_graph st) \<noteq> [] \<and> req_path req = []
    \<and> get_switch_for_ip e src_ip = Some s \<and> get_switch_for_ip e dst_ip = Some d
    \<and> s \<noteq> 0 \<and> d \<noteq> 0
    \<and> path_of (request_path_from_rl_agent e s d (get_current_network_state e st)) = []
    \<longrightarrow> force_path_installation e req st =
        (case nx_shortest_path e (topology_graph st) s d of
           SPath p \<Rightarrow>
             if p = [] then ((400, ErrorText ''No valid path found''), st)
             else ((200, PathInstalled p), install_path_flows e p src_ip dst_ip st)
         | NetworkXNoPath \<Rightarrow> ((400, ErrorText ''No valid path found''), st)
         | NXNodeNotFound \<Rightarrow> ((500, ErrorOf NodeNotFound), st)))"
proof (intro conjI impI)
  show "packet_in_handler e ev st =
        (case nx_shortest_path e (topology_graph st) s d of
           SPath p \<Rightarrow>
             (None, (if p = [] then stl else install_path_flows e p src_ip dst_ip stl)
                      \<lparr>sent := sent (if p = [] then stl
                                     else install_path_flows e p src_ip dst_ip stl)
                               @ [packet_out]\<rparr>)
         | NetworkXNoPath \<Rightarrow> (None, stl\<lparr>sent := sent stl @ [packet_out]\<rparr>)
         | NXNodeNotFound \<Rightarrow> (Some NodeNotFound, stl))"
    if "ethertype ev \<noteq> 0x0806
    \<and> learned = AList.update (eth_src ev) (in_port ev)
          (case map_of (mac_to_port st) (dp_id (pi_datapath ev)) of None \<Rightarrow> [] | Some t \<Rightarrow> t)
    \<and> stl = st\<lparr>mac_to_port := AList.update (dp_id (pi_datapath ev)) learned (mac_to_port st)\<rparr>
    \<and> map_of learned (eth_dst ev) = Some out_port \<and> out_port \<noteq> OFPP_FLOOD
    \<and> packet_out = (dp_id (pi_datapath ev),
          OFPPacketOut (buffer_id ev) (in_port ev) [OFPActionOutput out_port]
            (if buffer_id ev = OFP_NO_BUFFER then Some (pkt_data ev) else None))
    \<and> ip_pkt ev = Some (src_ip, dst_ip)
    \<and> get_switch_for_ip e src_ip = Some s \<and> get_switch_for_ip e dst_ip = Some d
    \<and> s \<noteq> 0 \<and> d \<noteq> 0
    \<and> path_of (request_path_from_rl_agent e s d (get_current_network_state e stl)) = []"
    by (rule packet_in_fallback) (use that in blast)+
  show "reroute_loop e ((src_ip, dst_ip) # rest) st =
        (case nx_shortest_path e (topology_graph st) s d of
           SPath p \<Rightarrow>
             reroute_loop e rest
               (if p = [] then st else install_path_flows e p src_ip dst_ip st)
         | NetworkXNoPath \<Rightarrow> reroute_loop e rest st
         | NXNodeNotFound \<Rightarrow> (Some NodeNotFound, st))"
    if "get_switch_for_ip e src_ip = Some s \<and> get_switch_for_ip e dst_ip = Some d
    \<and> s \<noteq> 0 \<and> d \<noteq> 0
    \<and> path_of (request_path_from_rl_agent e s d (get_current_network_state e st)) = []"
    by (rule reroute_fallback) (use that in blast)+
  show "force_path_installation e req st =
        (case nx_shortest_path e (topology_graph st) s d of
           SPath p \<Rightarrow>
             if p = [] then ((400, ErrorText ''No valid path found''), st)
             else ((200, PathInstalled p), install_path_flows e p src_ip dst_ip st)
         | NetworkXNoPath \<Rightarrow> ((400, ErrorText ''No valid path found''), st)
         | NXNodeNotFound \<Rightarrow> ((500, ErrorOf NodeNotFound), st))"
    if "req_src_ip req = src_ip \<and> req_dst_ip req = dst_ip \<and> src_ip \<noteq> [] \<and> dst_ip \<noteq> []
    \<and> nodes (topology_graph st) \<noteq> [] \<and> req_path req = []
    \<and> get_switch_for_ip e src_ip = Some s \<and> get_switch_for_ip e dst_ip = Some d
    \<and> s \<noteq> 0 \<and> d \<noteq> 0
    \<and> path_of (request_path_from_rl_agent e s d (get_current_network_state e st)) = []"
    by (rule force_path_fallback) (use that in blast)+
qed


theorem fallback_shortest_path_witness:
  "fst (packet_in_handler example_env example_packet_in example_controller) = None
   \<and> map flow_dpid (flows (snd (packet_in_handler example_env example_packet_in
         example_controller))) = [1, 2]
   \<and> reroute_loop example_env [(''10.0.0.1'', ''10.0.0.3'')] example_controller
       = (None, install_path_flows example_env [1, 2, 3] ''10.0.0.1'' ''10.0.0.3''
                  example_controller)
   \<and> force_path_installation example_env
         \<lparr>req_src_ip = ''10.0.0.1'', req_dst_ip = ''10.0.0.3'', req_path = []\<rparr>
         example_controller
       = ((200, PathInstalled [1, 2, 3]),
          install_path_flows example_env [1, 2, 3] ''10.0.0.1'' ''10.0.0.3'' example_controller)"
proof -
  have sw: "get_switch_for_ip example_env ''10.0.0.1'' = Some 1"
    "get_switch_for_ip example_env ''10.0.0.3'' = Some 3"
    by (simp_all add: get_switch_for_ip_def example_env_def example_topology_def)
  have ag: "\<And>st. path_of (request_path_from_rl_agent example_env 1 3
      (get_current_network_state example_env st)) = []"
    by (simp add: request_path_from_rl_agent_def example_env_def)
  have sp: "nx_shortest_path example_env (topology_graph example_controller) 1 3 = SPath [1, 2, 3]"
    by (simp add: example_env_def example_controller_def)
  define learned where "learned = AList.update (eth_src example_packet_in) (in_port example_packet_in)
          (case map_of (mac_to_port example_controller) (dp_id (pi_datapath example_packet_in)) of
             None \<Rightarrow> [] | Some t \<Rightarrow> t)"
  define st1 where "st1 = example_controller\<lparr>mac_to_port :=
      AList.update (dp_id (pi_datapath example_packet_in)) learned (mac_to_port example_controller)\<rparr>"
  define packet_out where "packet_out = (dp_id (pi_datapath example_packet_in),
          OFPPacketOut (buffer_id example_packet_in) (in_port example_packet_in) [OFPActionOutput 2]
            (if buffer_id example_packet_in = OFP_NO_BUFFER
             then Some (pkt_data example_packet_in) else None))"
  have lk: "map_of learned (eth_dst example_packet_in) = Some 2"
    by (simp add: learned_def example_packet_in_def example_controller_def)
  have h1: "ethertype example_packet_in \<noteq> 0x0806
    \<and> learned = AList.update (eth_src example_packet_in) (in_port example_packet_in)
          (case map_of (mac_to_port example_controller) (dp_id (pi_datapath example_packet_in)) of
             None \<Rightarrow> [] | Some t \<Rightarrow> t)
    \<and> st1 = example_controller\<lparr>mac_to_port :=
          AList.update (dp_id (pi_datapath example_packet_in)) learned
            (mac_to_port example_controller)\<rparr>
    \<and> map_of learned (eth_dst example_packet_in) = Some 2 \<and> 2 \<noteq> OFPP_FLOOD
    \<and> packet_out = (dp_id (pi_datapath example_packet_in),
          OFPPacketOut (buffer_id example_packet_in) (in_port example_packet_in) [OFPActionOutput 2]
            (if buffer_id example_packet_in = OFP_NO_BUFFER
             then Some (pkt_data example_packet_in) else None))
    \<and> ip_pkt example_packet_in = Some (''10.0.0.1'', ''10.0.0.3'')
    \<and> get_switch_for_ip example_env ''10.0.0.1'' = Some 1
    \<and> get_switch_for_ip example_env ''10.0.0.3'' = Some 3
    \<and> (1::int) \<noteq> 0 \<and> (3::int) \<noteq> 0
    \<and> path_of (request_path_from_rl_agent example_env 1 3
          (get_current_network_state example_env st1)) = []"
    using sw ag lk learned_def st1_def packet_out_def
    by (simp add: example_packet_in_def OFPP_FLOOD_def)
  have h2: "get_switch_for_ip example_env ''10.0.0.1'' = Some 1
    \<and> get_switch_for_ip example_env ''10.0.0.3'' = Some 3
    \<and> (1::int) \<noteq> 0 \<and> (3::int) \<noteq> 0
    \<and> path_of (request_path_from_rl_agent example_env 1 3
          (get_current_network_state example_env example_controller)) = []"
    using sw ag by simp
  have h3: "req_src_ip \<lparr>req_src_ip = ''10.0.0.1'', req_dst_ip = ''10.0.0.3'', req_path = []\<rparr>
      = ''10.0.0.1''
    \<and> req_dst_ip \<lparr>req_src_ip = ''10.0.0.1'', req_dst_ip = ''10.0.0.3'', req_path = []\<rparr>
      = ''10.0.0.3''
    \<and> ''10.0.0.1'' \<noteq> [] \<and> ''10.0.0.3'' \<noteq> []
    \<and> nodes (topology_graph example_controller) \<noteq> []
    \<and> req_path \<lparr>req_src_ip = ''10.0.0.1'', req_dst_ip = ''10.0.0.3'', req_path = []\<rparr> = []
    \<and> get_switch_for_ip example_env ''10.0.0.1'' = Some 1
    \<and> get_switch_for_ip example_env ''10.0.0.3'' = Some 3
    \<and> (1::int) \<noteq> 0 \<and> (3::int) \<noteq> 0
    \<and> path_of (request_path_from_rl_agent example_env 1 3
          (get_current_network_state example_env example_controller)) = []"
    using sw ag by (simp add: example_controller_def)
  note t = fallback_shortest_path [where e = example_env and st = example_controller
      and src_ip = "''10.0.0.1''" and dst_ip = "''10.0.0.3''" and s = 1 and d = 3
      and ev = example_packet_in and learned = learned and stl = st1 and out_port = 2
      and packet_out = packet_out and rest = "[]"
      and req = "\<lparr>req_src_ip = ''10.0.0.1'', req_dst_ip = ''10.0.0.3'', req_path = []\<rparr>"]
  have r1: "packet_in_handler example_env example_packet_in example_controller =
      (None, (install_path_flows example_env [1, 2, 3] ''10.0.0.1'' ''10.0.0.3'' st1)
               \<lparr>sent := sent (install_path_flows example_env [1, 2, 3] ''10.0.0.1'' ''10.0.0.3'' st1)
                        @ [packet_out]\<rparr>)"
    using t [THEN conjunct1, rule_format, OF h1] sp by simp
  have r2: "reroute_loop example_env [(''10.0.0.1'', ''10.0.0.3'')] example_controller
       = (None, install_path_flows example_env [1, 2, 3] ''10.0.0.1'' ''10.0.0.3''
                  example_controller)"
    using t [THEN conjunct2, THEN conjunct1, rule_format, OF h2] sp by simp
  have r3: "force_path_installation example_env
         \<lparr>req_src_ip = ''10.0.0.1'', req_dst_ip = ''10.0.0.3'', req_path = []\<rparr>
         example_controller
       = ((200, PathInstalled [1, 2, 3]),
          install_path_flows example_env [1, 2, 3] ''10.0.0.1'' ''10.0.0.3'' example_controller)"
    using t [THEN conjunct2, THEN conjunct2, rule_format, OF h3] sp by simp
  have fl: "map flow_dpid (flows (install_path_flows example_env [1, 2, 3]
      ''10.0.0.1'' ''10.0.0.3'' st1)) = [1, 2]"
    by (simp add: st1_def example_controller_def example_env_def add_flow_def Let_def
        edge_port_def)
  show ?thesis using r1 r2 r3 fl by simp
qed

section \<open>The grid descriptor\<close>



lemma digits_val_snoc: "digits_val (ds @ [c]) = 10 * digits_val ds + digit_val c"
  by (simp add: digits_val_def)

lemma digit_val_digit_char: "d < 10 \<Longrightarrow> digit_val (digit_char d) = d"
  by (simp add: digit_val_def digit_char_def)

lemma digits_val_str_nat: "digits_val (str_nat n) = n"
proof (induction n rule: str_nat.induct)
  case (1 n)
  show ?case
  proof (cases "n < 10")
    case True
    then have "str_nat n = [digit_char n]" by (subst str_nat.simps) simp
    then show ?thesis
      using True by (simp add: digits_val_def digit_val_digit_char)
  next
    case False
    have ih: "digits_val (str_nat (n div 10)) = n div 10" using 1 False by blast
    have "str_nat n = str_nat (n div 10) @ [digit_char (n mod 10)]"
      using False by (subst str_nat.simps) simp
    then show ?thesis
      by (simp add: digits_val_snoc digit_val_digit_char ih)
  qed
qed

lemma str_nat_inj: "str_nat n = str_nat m \<Longrightarrow> n = m"
proof -
  assume "str_nat n = str_nat m"
  then have "digits_val (str_nat n) = digits_val (str_nat m)" by (rule arg_cong)
  then show "n = m" by (simp only: digits_val_str_nat)
qed

lemma sname_inj: "sname n = sname m \<Longrightarrow> n = m"
  by (simp add: sname_def str_nat_inj)

lemma distinct_snames: "distinct (map sname [a..<b])"
  by (simp add: distinct_map inj_on_def sname_inj)

lemma update_fresh: "k \<notin> fst ` set al \<Longrightarrow> AList.update k v al = al @ [(k, v)]"
  by (induction al) auto

lemma fold_update_fresh:
  "distinct (map fst kvs) \<Longrightarrow> fst ` set kvs \<inter> fst ` set acc = {} \<Longrightarrow>
   fold (\<lambda>(k, v). AList.update k v) kvs acc = acc @ kvs"
proof (induction kvs arbitrary: acc)
  case Nil
  then show ?case by simp
next
  case (Cons kv kvs)
  obtain k v where kv: "kv = (k, v)" by (cases kv)
  have f: "k \<notin> fst ` set acc" using Cons.prems(2) kv by auto
  have "fold (\<lambda>(k, v). AList.update k v) kvs (acc @ [(k, v)]) = (acc @ [(k, v)]) @ kvs"
    using Cons.prems kv by (intro Cons.IH) auto
  then show ?case by (simp add: kv update_fresh [OF f])
qed

lemma dict_of_distinct: "distinct (map fst kvs) \<Longrightarrow> dict_of kvs = kvs"
  using fold_update_fresh [of kvs "[]"] by (simp add: dict_of_def)



lemma update_keys_present:
  "k \<in> set (map fst al) \<Longrightarrow> map fst (AList.update k v al) = map fst al"
  by (simp add: update_keys)

lemma update_map_snd:
  "map_of al k = Some x \<Longrightarrow> f v = f x \<Longrightarrow>
   map (\<lambda>(name, y). f y) (AList.update k v al) = map (\<lambda>(name, y). f y) al"
  by (induction al) (auto split: if_splits)

lemma map_of_present: "k \<in> set (map fst al) \<Longrightarrow> \<exists>v. map_of al k = Some v"
  by (cases "map_of al k") (auto simp: map_of_eq_None_iff)

lemma add_link_ok:
  assumes inv: "grid_inv n (topo, pc)"
    and c: "cur \<in> set (map sname [1..<n * n + 1])"
    and x: "nxt \<in> set (map sname [1..<n * n + 1])"
  shows "\<exists>topo' pc' p. add_link cur nxt (topo, pc) = Inr (topo', pc')
      \<and> grid_inv n (topo', pc') \<and> hosts topo' = hosts topo
      \<and> links topo' = links topo @ [\<lparr>src = cur, dst = nxt, port = p\<rparr>]"
proof -
  let ?names = "map sname [1..<n * n + 1]"
  from inv have k: "map fst (switches topo) = ?names"
    and dp: "map (\<lambda>(name, sw). dpid sw) (switches topo) = map int [1..<n * n + 1]"
    and kp: "map fst pc = ?names"
    by (simp_all add: grid_inv_def)
  obtain p1 where p1: "map_of pc cur = Some p1"
    using map_of_present [of cur pc] c kp by auto
  obtain sw where sw: "map_of (switches topo) cur = Some sw"
    using map_of_present [of cur "switches topo"] c k by auto
  define sws1 where "sws1 = AList.update cur (sw\<lparr>ports := AList.update nxt p1 (ports sw)\<rparr>)
      (switches topo)"
  have k1: "map fst sws1 = ?names"
    unfolding sws1_def using update_keys_present [of cur "switches topo"] c k by simp
  have dp1: "map (\<lambda>(name, sw). dpid sw) sws1 = map int [1..<n * n + 1]"
    unfolding sws1_def using update_map_snd [OF sw, of dpid] dp by simp
  obtain p2 where p2: "map_of pc nxt = Some p2"
    using map_of_present [of nxt pc] x kp by auto
  obtain nx where nx: "map_of sws1 nxt = Some nx"
    using map_of_present [of nxt sws1] x k1 by auto
  define sws2 where "sws2 = AList.update nxt (nx\<lparr>ports := AList.update cur p2 (ports nx)\<rparr>) sws1"
  have k2: "map fst sws2 = ?names"
    unfolding sws2_def using update_keys_present [of nxt sws1] x k1 by simp
  have dp2: "map (\<lambda>(name, sw). dpid sw) sws2 = map int [1..<n * n + 1]"
    unfolding sws2_def using update_map_snd [OF nx, of dpid] dp1 by simp
  define pc1 where "pc1 = AList.update cur (p1 + 1) pc"
  have kp1: "map fst pc1 = ?names"
    unfolding pc1_def using update_keys_present [of cur pc] c kp by simp
  obtain p2' where p2': "map_of pc1 nxt = Some p2'"
    using map_of_present [of nxt pc1] x kp1 by auto
  have kp2: "map fst (AList.update nxt (p2' + 1) pc1) = ?names"
    using update_keys_present [of nxt pc1] x kp1 by simp
  have r: "add_link cur nxt (topo, pc) =
      Inr (topo\<lparr>switches := sws2,
                 links := links topo @ [\<lparr>src = cur, dst = nxt, port = p1\<rparr>]\<rparr>,
           AList.update nxt (p2' + 1) pc1)"
    unfolding add_link_def Let_def
    using p1 sw p2 nx [unfolded sws1_def] p2' [unfolded pc1_def]
    by (simp add: sws2_def sws1_def pc1_def)
  show ?thesis
    unfolding r using k2 dp2 kp2 by (simp add: grid_inv_def)
qed

lemma attach_host_ok:
  assumes inv: "grid_inv n (topo, pc)"
    and h: "map_of (hosts topo) host = Some hi"
    and c: "switch \<in> set (map sname [1..<n * n + 1])"
  shows "\<exists>topo' pc' p. attach_host (host, switch) (topo, pc) = Inr (topo', pc')
      \<and> grid_inv n (topo', pc')
      \<and> hosts topo' = AList.update host (hi\<lparr>connected_to := switch\<rparr>) (hosts topo)
      \<and> links topo' = links topo @ [\<lparr>src = host, dst = switch, port = p\<rparr>]"
proof -
  let ?names = "map sname [1..<n * n + 1]"
  from inv have k: "map fst (switches topo) = ?names"
    and dp: "map (\<lambda>(name, sw). dpid sw) (switches topo) = map int [1..<n * n + 1]"
    and kp: "map fst pc = ?names"
    by (simp_all add: grid_inv_def)
  obtain p where p: "map_of pc switch = Some p"
    using map_of_present [of switch pc] c kp by auto
  obtain sw where sw: "map_of (switches topo) switch = Some sw"
    using map_of_present [of switch "switches topo"] c k by auto
  have k1: "map fst (AList.update switch (sw\<lparr>ports := AList.update host p (ports sw)\<rparr>)
      (switches topo)) = ?names"
    using update_keys_present [of switch "switches topo"] c k by simp
  have dp1: "map (\<lambda>(name, sw). dpid sw)
      (AList.update switch (sw\<lparr>ports := AList.update host p (ports sw)\<rparr>) (switches topo))
      = map int [1..<n * n + 1]"
    using update_map_snd [OF sw, of dpid] dp by simp
  have kp1: "map fst (AList.update switch (p + 1) pc) = ?names"
    using update_keys_present [of switch pc] c kp by simp
  have r: "attach_host (host, switch) (topo, pc) =
      Inr (topo\<lparr>hosts := AList.update host (hi\<lparr>connected_to := switch\<rparr>) (hosts topo),
                 switches := AList.update switch
                    (sw\<lparr>ports := AList.update host p (ports sw)\<rparr>) (switches topo),
                 links := links topo @ [\<lparr>src = host, dst = switch, port = p\<rparr>]\<rparr>,
           AList.update switch (p + 1) pc)"
    unfolding attach_host_def using h sw p by simp
  show ?thesis
    unfolding r using k1 dp1 kp1 by (simp add: grid_inv_def)
qed


lemma sname_mem: "1 \<le> k \<Longrightarrow> k \<le> n * n \<Longrightarrow> sname k \<in> set (map sname [1..<n * n + 1])"
proof -
  assume "1 \<le> k" and "k \<le> n * n"
  then have "k \<in> {1..<n * n + 1}" by auto
  then have "k \<in> set [1..<n * n + 1]" by (simp only: set_upt)
  then show ?thesis unfolding set_map by (rule imageI)
qed

lemma cell_bound: "i < n \<Longrightarrow> j < n \<Longrightarrow> i * n + j < n * (n::nat)"
proof -
  assume a: "i < n" "j < n"
  then have "Suc i \<le> n" by simp
  then have "Suc i * n \<le> n * n" by (rule mult_le_mono1)
  with a show ?thesis by simp
qed

lemma grid_cell_ok:
  assumes inv: "grid_inv n st" and i: "i < n" and j: "j < n"
  shows "\<exists>st' ls. grid_cell n (i, j) st = Inr st' \<and> grid_inv n st'
      \<and> hosts (fst st') = hosts (fst st)
      \<and> links (fst st') = links (fst st) @ ls
      \<and> length ls = (if j < n - 1 then 1 else 0) + (if i < n - 1 then 1 else 0)
      \<and> list_all (\<lambda>l. hd (src l) = CHR ''s'') ls"
proof -
  obtain topo pc where st: "st = (topo, pc)" by (cases st)
  have cur: "sname (i * n + j + 1) \<in> set (map sname [1..<n * n + 1])"
    using cell_bound [OF i j] by (intro sname_mem) simp_all
  have right: "\<exists>st1 ls1. (if j < n - 1 then add_link (sname (i * n + j + 1))
        (sname (i * n + j + 2)) st else Inr st) = Inr st1 \<and> grid_inv n st1
      \<and> hosts (fst st1) = hosts (fst st) \<and> links (fst st1) = links (fst st) @ ls1
      \<and> length ls1 = (if j < n - 1 then 1 else 0)
      \<and> list_all (\<lambda>l. hd (src l) = CHR ''s'') ls1"
  proof (cases "j < n - 1")
    case True
    then have "Suc j < n" by simp
    from cell_bound [OF i this]
    have nx: "sname (i * n + j + 2) \<in> set (map sname [1..<n * n + 1])"
      by (intro sname_mem) simp_all
    from add_link_ok [OF inv [unfolded st] cur nx] True show ?thesis
      by (fastforce simp: st sname_def)
  next
    case False
    with inv show ?thesis by simp
  qed
  then obtain st1 ls1 where r1: "(if j < n - 1 then add_link (sname (i * n + j + 1))
        (sname (i * n + j + 2)) st else Inr st) = Inr st1" and inv1: "grid_inv n st1"
    and h1: "hosts (fst st1) = hosts (fst st)" and l1: "links (fst st1) = links (fst st) @ ls1"
    and n1: "length ls1 = (if j < n - 1 then 1 else 0)"
    and q1: "list_all (\<lambda>l. hd (src l) = CHR ''s'') ls1"
    by blast
  obtain topo1 pc1 where st1: "st1 = (topo1, pc1)" by (cases st1)
  have down: "\<exists>st2 ls2. (if i < n - 1 then add_link (sname (i * n + j + 1))
        (sname ((i + 1) * n + j + 1)) st1 else Inr st1) = Inr st2 \<and> grid_inv n st2
      \<and> hosts (fst st2) = hosts (fst st1) \<and> links (fst st2) = links (fst st1) @ ls2
      \<and> length ls2 = (if i < n - 1 then 1 else 0)
      \<and> list_all (\<lambda>l. hd (src l) = CHR ''s'') ls2"
  proof (cases "i < n - 1")
    case True
    then have "Suc i < n" by simp
    from cell_bound [OF this j]
    have nx: "sname ((i + 1) * n + j + 1) \<in> set (map sname [1..<n * n + 1])"
      by (intro sname_mem) simp_all
    from add_link_ok [OF inv1 [unfolded st1] cur nx] True show ?thesis
      by (fastforce simp: st1 sname_def)
  next
    case False
    with inv1 show ?thesis by simp
  qed
  then obtain st2 ls2 where r2: "(if i < n - 1 then add_link (sname (i * n + j + 1))
        (sname ((i + 1) * n + j + 1)) st1 else Inr st1) = Inr st2" and inv2: "grid_inv n st2"
    and h2: "hosts (fst st2) = hosts (fst st1)" and l2: "links (fst st2) = links (fst st1) @ ls2"
    and n2: "length ls2 = (if i < n - 1 then 1 else 0)"
    and q2: "list_all (\<lambda>l. hd (src l) = CHR ''s'') ls2"
    by blast
  have "grid_cell n (i, j) st = Inr st2"
    unfolding grid_cell_def Let_def using r1 r2 by simp
  moreover have "links (fst st2) = links (fst st) @ (ls1 @ ls2)" using l1 l2 by simp
  moreover have "length (ls1 @ ls2) = (if j < n - 1 then 1 else 0) + (if i < n - 1 then 1 else 0)"
    using n1 n2 by simp
  moreover have "list_all (\<lambda>l. hd (src l) = CHR ''s'') (ls1 @ ls2)" using q1 q2 by simp
  ultimately show ?thesis using inv2 h1 h2 by metis
qed

lemma for_each_links:
  assumes step: "\<And>x st. x \<in> set xs \<Longrightarrow> grid_inv n st \<Longrightarrow>
      \<exists>st' ls. body x st = Inr st' \<and> grid_inv n st' \<and> hosts (fst st') = hosts (fst st)
        \<and> links (fst st') = links (fst st) @ ls \<and> length ls = w x \<and> list_all Q ls"
    and inv: "grid_inv n st"
  shows "\<exists>st' ls. for_each body xs st = Inr st' \<and> grid_inv n st'
      \<and> hosts (fst st') = hosts (fst st)
      \<and> links (fst st') = links (fst st) @ ls \<and> length ls = sum_list (map w xs)
      \<and> list_all Q ls"
  using assms
proof (induction xs arbitrary: st)
  case Nil
  then show ?case by simp
next
  case (Cons x xs)
  from Cons.prems(1) [of x st] Cons.prems(2)
  obtain st1 ls1 where b: "body x st = Inr st1" and i1: "grid_inv n st1"
    and h1: "hosts (fst st1) = hosts (fst st)" and l1: "links (fst st1) = links (fst st) @ ls1"
    and n1: "length ls1 = w x" and q1: "list_all Q ls1"
    by auto
  have "\<exists>st' ls. for_each body xs st1 = Inr st' \<and> grid_inv n st'
      \<and> hosts (fst st') = hosts (fst st1)
      \<and> links (fst st') = links (fst st1) @ ls \<and> length ls = sum_list (map w xs)
      \<and> list_all Q ls"
    using Cons.prems(1) i1 by (intro Cons.IH) auto
  then obtain st2 ls2 where f: "for_each body xs st1 = Inr st2" and i2: "grid_inv n st2"
    and h2: "hosts (fst st2) = hosts (fst st1)" and l2: "links (fst st2) = links (fst st1) @ ls2"
    and n2: "length ls2 = sum_list (map w xs)" and q2: "list_all Q ls2"
    by blast
  have "for_each body (x # xs) st = Inr st2" using b f by simp
  moreover have "links (fst st2) = links (fst st) @ (ls1 @ ls2)" using l1 l2 by simp
  moreover have "length (ls1 @ ls2) = sum_list (map w (x # xs))" using n1 n2 by simp
  moreover have "list_all Q (ls1 @ ls2)" using q1 q2 by simp
  ultimately show ?case using i2 h1 h2 by metis
qed

lemma sum_list_map_concat:
  "sum_list (map f (concat xss)) = sum_list (map (\<lambda>xs. sum_list (map f xs)) xss)"
  by (induction xss) simp_all

lemma sum_const_plus:
  "sum_list (map (\<lambda>i. (a::nat) + f i) xs) = length xs * a + sum_list (map f xs)"
  by (induction xs) simp_all

lemma sum_scaled_indicator:
  "sum_list (map (\<lambda>i. if i < m then (c::nat) else 0) [0..<k]) = c * min m k"
  by (induction k) auto

lemma sum_indicator: "sum_list (map (\<lambda>j. if j < m then (1::nat) else 0) [0..<k]) = min m k"
  by (induction k) auto

lemma row_links:
  "sum_list (map (\<lambda>j. (if j < n - 1 then (1::nat) else 0) + (if i < n - 1 then 1 else 0)) [0..<n])
     = (n - 1) + (if i < n - 1 then n else 0)"
  by (simp add: sum_list_addf sum_indicator sum_list_triv)

lemma grid_links:
  "sum_list (map (\<lambda>(i, j). (if j < n - 1 then (1::nat) else 0) + (if i < n - 1 then 1 else 0))
     (concat (map (\<lambda>i. map (\<lambda>j. (i, j)) [0..<n]) [0..<n]))) = 2 * n * (n - 1)"
proof -
  have "sum_list (map (\<lambda>(i, j). (if j < n - 1 then (1::nat) else 0) + (if i < n - 1 then 1 else 0))
     (concat (map (\<lambda>i. map (\<lambda>j. (i, j)) [0..<n]) [0..<n])))
    = sum_list (map (\<lambda>i. (n - 1) + (if i < n - 1 then n else 0)) [0..<n])"
    by (simp only: sum_list_map_concat map_map comp_def prod.case row_links)
  also have "\<dots> = n * (n - 1) + n * min (n - 1) n"
    by (simp only: sum_const_plus sum_scaled_indicator length_upt) simp
  also have "\<dots> = 2 * n * (n - 1)" by simp
  finally show ?thesis .
qed


lemma sname_1: "sname 1 = ''s1''"
  by code_simp

lemma initial_hosts:
  "dict_of (map (\<lambda>i. (hname (i + 1),
       \<lparr>ip = ''10.0.0.'' @ str_nat (i + 1), mac = ''00:00:00:00:00:0'' @ str_nat (i + 1),
        connected_to = []\<rparr>)) [0..<4])
   = [(''h1'', \<lparr>ip = ''10.0.0.1'', mac = ''00:00:00:00:00:01'', connected_to = []\<rparr>),
      (''h2'', \<lparr>ip = ''10.0.0.2'', mac = ''00:00:00:00:00:02'', connected_to = []\<rparr>),
      (''h3'', \<lparr>ip = ''10.0.0.3'', mac = ''00:00:00:00:00:03'', connected_to = []\<rparr>),
      (''h4'', \<lparr>ip = ''10.0.0.4'', mac = ''00:00:00:00:00:04'', connected_to = []\<rparr>)]"
  by code_simp

lemma initial_dict:
  "dict_of (map (\<lambda>i. (sname (i + 1), f i)) [0..<m]) = map (\<lambda>i. (sname (i + 1), f i)) [0..<m]"
proof (rule dict_of_distinct)
  have "map fst (map (\<lambda>i. (sname (i + 1), f i)) [0..<m]) = map sname (map Suc [0..<m])"
    by (simp add: comp_def)
  also have "\<dots> = map sname [Suc 0..<Suc m]" by (simp only: map_Suc_upt)
  finally show "distinct (map fst (map (\<lambda>i. (sname (i + 1), f i)) [0..<m]))"
    by (simp only: distinct_snames)
qed

lemma initial_names:
  "map fst (map (\<lambda>i. (sname (i + 1), f i)) [0..<m]) = map sname [1..<m + 1]"
proof -
  have "map fst (map (\<lambda>i. (sname (i + 1), f i)) [0..<m]) = map sname (map Suc [0..<m])"
    by (simp add: comp_def)
  also have "\<dots> = map sname [Suc 0..<Suc m]" by (simp only: map_Suc_upt)
  finally show ?thesis by simp
qed

lemma initial_dpids:
  "map (\<lambda>(name, sw). dpid sw)
     (map (\<lambda>i. (sname (i + 1), \<lparr>dpid = int (i + 1), ports = []\<rparr>)) [0..<m])
   = map int [1..<m + 1]"
proof -
  have "map (\<lambda>(name, sw). dpid sw)
     (map (\<lambda>i. (sname (i + 1), \<lparr>dpid = int (i + 1), ports = []\<rparr>)) [0..<m])
     = map int (map Suc [0..<m])"
    by (simp add: comp_def)
  also have "\<dots> = map int [Suc 0..<Suc m]" by (simp only: map_Suc_upt)
  finally show ?thesis by simp
qed

lemma corner_bounds:
  assumes "1 \<le> (n::nat)"
  shows "1 \<le> n * n" and "n \<le> n * n" and "n * (n - 1) + 1 \<le> n * n"
proof -
  obtain k where k: "n = Suc k" using assms by (cases n) auto
  show "1 \<le> n * n" by (simp add: k)
  show "n \<le> n * n" by (simp add: k)
  show "n * (n - 1) + 1 \<le> n * n" by (simp add: k)
qed

lemma corners_ok:
  assumes inv: "grid_inv n (topo, pc)" and n: "1 \<le> n"
    and h0: "hosts topo =
      [(''h1'', \<lparr>ip = ''10.0.0.1'', mac = ''00:00:00:00:00:01'', connected_to = []\<rparr>),
       (''h2'', \<lparr>ip = ''10.0.0.2'', mac = ''00:00:00:00:00:02'', connected_to = []\<rparr>),
       (''h3'', \<lparr>ip = ''10.0.0.3'', mac = ''00:00:00:00:00:03'', connected_to = []\<rparr>),
       (''h4'', \<lparr>ip = ''10.0.0.4'', mac = ''00:00:00:00:00:04'', connected_to = []\<rparr>)]"
    and l0: "links topo = []"
  shows "\<exists>st' p1 p2 p3 p4.
      for_each attach_host
        [(''h1'', sname 1), (''h2'', sname n), (''h3'', sname (n * (n - 1) + 1)),
         (''h4'', sname (n * n))] (topo, pc) = Inr st'
      \<and> grid_inv n st'
      \<and> map fst (hosts (fst st')) = [''h1'', ''h2'', ''h3'', ''h4'']
      \<and> map (\<lambda>(name, h). connected_to h) (hosts (fst st'))
          = [sname 1, sname n, sname (n * (n - 1) + 1), sname (n * n)]
      \<and> links (fst st') =
          [\<lparr>src = ''h1'', dst = sname 1, port = p1\<rparr>, \<lparr>src = ''h2'', dst = sname n, port = p2\<rparr>,
           \<lparr>src = ''h3'', dst = sname (n * (n - 1) + 1), port = p3\<rparr>,
           \<lparr>src = ''h4'', dst = sname (n * n), port = p4\<rparr>]"
proof -
  note b = corner_bounds [OF n]
  have m1: "sname 1 \<in> set (map sname [1..<n * n + 1])" using b(1) by (intro sname_mem) simp_all
  have m2: "sname n \<in> set (map sname [1..<n * n + 1])" using b(2) n by (intro sname_mem) simp_all
  have m3: "sname (n * (n - 1) + 1) \<in> set (map sname [1..<n * n + 1])"
    using b(3) by (intro sname_mem) simp_all
  have m4: "sname (n * n) \<in> set (map sname [1..<n * n + 1])"
    using b(1) by (intro sname_mem) simp_all
  have g1: "map_of (hosts topo) ''h1'' =
      Some \<lparr>ip = ''10.0.0.1'', mac = ''00:00:00:00:00:01'', connected_to = []\<rparr>"
    by (simp add: h0)
  from attach_host_ok [OF inv g1 m1]
  obtain t1 c1 p1 where a1: "attach_host (''h1'', sname 1) (topo, pc) = Inr (t1, c1)"
    and i1: "grid_inv n (t1, c1)"
    and hs1: "hosts t1 = AList.update ''h1''
        (\<lparr>ip = ''10.0.0.1'', mac = ''00:00:00:00:00:01'', connected_to = []\<rparr>
           \<lparr>connected_to := sname 1\<rparr>) (hosts topo)"
    and ls1: "links t1 = links topo @ [\<lparr>src = ''h1'', dst = sname 1, port = p1\<rparr>]"
    by blast
  have g2: "map_of (hosts t1) ''h2'' =
      Some \<lparr>ip = ''10.0.0.2'', mac = ''00:00:00:00:00:02'', connected_to = []\<rparr>"
    by (simp add: hs1 h0)
  from attach_host_ok [OF i1 g2 m2]
  obtain t2 c2 p2 where a2: "attach_host (''h2'', sname n) (t1, c1) = Inr (t2, c2)"
    and i2: "grid_inv n (t2, c2)"
    and hs2: "hosts t2 = AList.update ''h2''
        (\<lparr>ip = ''10.0.0.2'', mac = ''00:00:00:00:00:02'', connected_to = []\<rparr>
           \<lparr>connected_to := sname n\<rparr>) (hosts t1)"
    and ls2: "links t2 = links t1 @ [\<lparr>src = ''h2'', dst = sname n, port = p2\<rparr>]"
    by blast
  have g3: "map_of (hosts t2) ''h3'' =
      Some \<lparr>ip = ''10.0.0.3'', mac = ''00:00:00:00:00:03'', connected_to = []\<rparr>"
    by (simp add: hs2 hs1 h0)
  from attach_host_ok [OF i2 g3 m3]
  obtain t3 c3 p3 where a3: "attach_host (''h3'', sname (n * (n - 1) + 1)) (t2, c2) = Inr (t3, c3)"
    and i3: "grid_inv n (t3, c3)"
    and hs3: "hosts t3 = AList.update ''h3''
        (\<lparr>ip = ''10.0.0.3'', mac = ''00:00:00:00:00:03'', connected_to = []\<rparr>
           \<lparr>connected_to := sname (n * (n - 1) + 1)\<rparr>) (hosts t2)"
    and ls3: "links t3 = links t2 @ [\<lparr>src = ''h3'', dst = sname (n * (n - 1) + 1), port = p3\<rparr>]"
    by blast
  have g4: "map_of (hosts t3) ''h4'' =
      Some \<lparr>ip = ''10.0.0.4'', mac = ''00:00:00:00:00:04'', connected_to = []\<rparr>"
    by (simp add: hs3 hs2 hs1 h0)
  from attach_host_ok [OF i3 g4 m4]
  obtain t4 c4 p4 where a4: "attach_host (''h4'', sname (n * n)) (t3, c3) = Inr (t4, c4)"
    and i4: "grid_inv n (t4, c4)"
    and hs4: "hosts t4 = AList.update ''h4''
        (\<lparr>ip = ''10.0.0.4'', mac = ''00:00:00:00:00:04'', connected_to = []\<rparr>
           \<lparr>connected_to := sname (n * n)\<rparr>) (hosts t3)"
    and ls4: "links t4 = links t3 @ [\<lparr>src = ''h4'', dst = sname (n * n), port = p4\<rparr>]"
    by blast
  have f: "for_each attach_host
        [(''h1'', sname 1), (''h2'', sname n), (''h3'', sname (n * (n - 1) + 1)),
         (''h4'', sname (n * n))] (topo, pc) = Inr (t4, c4)"
    using a1 a2 a3 a4 by simp
  have hs: "hosts t4 =
      [(''h1'', \<lparr>ip = ''10.0.0.1'', mac = ''00:00:00:00:00:01'', connected_to = sname 1\<rparr>),
       (''h2'', \<lparr>ip = ''10.0.0.2'', mac = ''00:00:00:00:00:02'', connected_to = sname n\<rparr>),
       (''h3'', \<lparr>ip = ''10.0.0.3'', mac = ''00:00:00:00:00:03'',
                connected_to = sname (n * (n - 1) + 1)\<rparr>),
       (''h4'', \<lparr>ip = ''10.0.0.4'', mac = ''00:00:00:00:00:04'',
                connected_to = sname (n * n)\<rparr>)]"
    by (simp add: hs4 hs3 hs2 hs1 h0)
  have ls: "links t4 =
          [\<lparr>src = ''h1'', dst = sname 1, port = p1\<rparr>, \<lparr>src = ''h2'', dst = sname n, port = p2\<rparr>,
           \<lparr>src = ''h3'', dst = sname (n * (n - 1) + 1), port = p3\<rparr>,
           \<lparr>src = ''h4'', dst = sname (n * n), port = p4\<rparr>]"
    by (simp add: ls4 ls3 ls2 ls1 l0)
  show ?thesis
    using f i4 hs ls by (intro exI [of _ "(t4, c4)"] exI [of _ p1] exI [of _ p2]
        exI [of _ p3] exI [of _ p4]) simp
qed


lemma corner_dict:
  "dict_of [(''h1'', ''s1''), (''h2'', sname n), (''h3'', sname (n * (n - 1) + 1)),
            (''h4'', sname (n * n))]
   = [(''h1'', sname 1), (''h2'', sname n), (''h3'', sname (n * (n - 1) + 1)),
      (''h4'', sname (n * n))]"
  unfolding sname_1 by (rule dict_of_distinct) simp

lemma corners_distinct:
  assumes "2 \<le> (n::nat)"
  shows "distinct [sname 1, sname n, sname (n * (n - 1) + 1), sname (n * n)]"
proof -
  obtain k where k: "n = Suc (Suc k)" using assms by (cases n; cases "n - 1") auto
  have "distinct [1, n, n * (n - 1) + 1, n * n]" by (simp add: k)
  then have "distinct (map sname [1, n, n * (n - 1) + 1, n * n])"
    by (simp only: distinct_map) (simp add: inj_on_def sname_inj)
  then show ?thesis by simp
qed

text \<open>
  The descriptor function on its own. Called with four hosts and a grid size \<open>n \<ge> 2\<close>,
  \<^verbatim>\<open>generate_topology_info\<close> raises nothing and yields the \<open>n\<^sup>2\<close> switch entries
  \<open>s1\<close> to \<open>s(n\<^sup>2)\<close>, all different, with dpids \<open>1..n\<^sup>2\<close>; the four hosts
  \<open>h1..h4\<close>, attached in this order to \<open>s1\<close>, \<open>s(n)\<close>, \<open>s(n(n-1)+1)\<close> and
  \<open>s(n\<^sup>2)\<close>, four different switches; and \<open>4 + 2n(n-1)\<close> links, of which the first
  four are the host links and all others start at a switch.
\<close>

lemma generate_topology_info_grid:
  assumes n: "2 \<le> n"
  shows "\<exists>topo. generate_topology_info 4 n = Inr topo
     \<and> map fst (switches topo) = map sname [1..<n * n + 1]
     \<and> distinct (map fst (switches topo))
     \<and> map (\<lambda>(name, sw). dpid sw) (switches topo) = map int [1..<n * n + 1]
     \<and> length (switches topo) = n * n
     \<and> map fst (hosts topo) = [''h1'', ''h2'', ''h3'', ''h4'']
     \<and> map (\<lambda>(name, h). connected_to h) (hosts topo)
         = [sname 1, sname n, sname (n * (n - 1) + 1), sname (n * n)]
     \<and> distinct [sname 1, sname n, sname (n * (n - 1) + 1), sname (n * n)]
     \<and> length (links topo) = 4 + 2 * n * (n - 1)
     \<and> map (\<lambda>l. (src l, dst l)) (take 4 (links topo))
         = [(''h1'', sname 1), (''h2'', sname n), (''h3'', sname (n * (n - 1) + 1)),
            (''h4'', sname (n * n))]
     \<and> list_all (\<lambda>l. hd (src l) = CHR ''s'') (drop 4 (links topo))"
proof -
  define topo0 where "topo0 =
    \<lparr>switches = map (\<lambda>i. (sname (i + 1), \<lparr>dpid = int (i + 1), ports = []\<rparr>)) [0..<n * n],
     hosts = [(''h1'', \<lparr>ip = ''10.0.0.1'', mac = ''00:00:00:00:00:01'', connected_to = []\<rparr>),
       (''h2'', \<lparr>ip = ''10.0.0.2'', mac = ''00:00:00:00:00:02'', connected_to = []\<rparr>),
       (''h3'', \<lparr>ip = ''10.0.0.3'', mac = ''00:00:00:00:00:03'', connected_to = []\<rparr>),
       (''h4'', \<lparr>ip = ''10.0.0.4'', mac = ''00:00:00:00:00:04'', connected_to = []\<rparr>)],
     links = []\<rparr>"
  define pc0 :: "(string \<times> int) list" where "pc0 = map (\<lambda>i. (sname (i + 1), 1)) [0..<n * n]"
  define cells where "cells = concat (map (\<lambda>i. map (\<lambda>j. (i, j)) [0..<n]) [0..<n])"
  have n1: "1 \<le> n" using n by simp
  have gen: "generate_topology_info 4 n =
      (case for_each attach_host
              [(''h1'', sname 1), (''h2'', sname n), (''h3'', sname (n * (n - 1) + 1)),
               (''h4'', sname (n * n))] (topo0, pc0) of
         Inl err \<Rightarrow> Inl err
       | Inr st1 \<Rightarrow>
           (case for_each (grid_cell n) cells st1 of
              Inl err \<Rightarrow> Inl err
            | Inr (topo', port_counters') \<Rightarrow> Inr topo'))"
    unfolding generate_topology_info_def Let_def initial_hosts initial_dict
      corner_dict topo0_def pc0_def cells_def
    by simp
  have inv0: "grid_inv n (topo0, pc0)"
    unfolding grid_inv_def topo0_def pc0_def
    by (simp only: prod.case topology_info.simps initial_names initial_dpids)
  have h0: "hosts topo0 =
      [(''h1'', \<lparr>ip = ''10.0.0.1'', mac = ''00:00:00:00:00:01'', connected_to = []\<rparr>),
       (''h2'', \<lparr>ip = ''10.0.0.2'', mac = ''00:00:00:00:00:02'', connected_to = []\<rparr>),
       (''h3'', \<lparr>ip = ''10.0.0.3'', mac = ''00:00:00:00:00:03'', connected_to = []\<rparr>),
       (''h4'', \<lparr>ip = ''10.0.0.4'', mac = ''00:00:00:00:00:04'', connected_to = []\<rparr>)]"
    and l0: "links topo0 = []"
    by (simp_all add: topo0_def)
  from corners_ok [OF inv0 n1 h0 l0]
  obtain st1 p1 p2 p3 p4 where
    c: "for_each attach_host
        [(''h1'', sname 1), (''h2'', sname n), (''h3'', sname (n * (n - 1) + 1)),
         (''h4'', sname (n * n))] (topo0, pc0) = Inr st1"
    and i1: "grid_inv n st1"
    and hk: "map fst (hosts (fst st1)) = [''h1'', ''h2'', ''h3'', ''h4'']"
    and hc: "map (\<lambda>(name, h). connected_to h) (hosts (fst st1))
          = [sname 1, sname n, sname (n * (n - 1) + 1), sname (n * n)]"
    and l1: "links (fst st1) =
          [\<lparr>src = ''h1'', dst = sname 1, port = p1\<rparr>, \<lparr>src = ''h2'', dst = sname n, port = p2\<rparr>,
           \<lparr>src = ''h3'', dst = sname (n * (n - 1) + 1), port = p3\<rparr>,
           \<lparr>src = ''h4'', dst = sname (n * n), port = p4\<rparr>]"
    by (elim exE conjE) (rule that; assumption)
  have step: "\<And>x st. x \<in> set cells \<Longrightarrow> grid_inv n st \<Longrightarrow>
      \<exists>st' ls. grid_cell n x st = Inr st' \<and> grid_inv n st' \<and> hosts (fst st') = hosts (fst st)
        \<and> links (fst st') = links (fst st) @ ls
        \<and> length ls = (case x of (i, j) \<Rightarrow>
              (if j < n - 1 then 1 else 0) + (if i < n - 1 then 1 else 0))
        \<and> list_all (\<lambda>l. hd (src l) = CHR ''s'') ls"
  proof -
    fix x st
    assume x: "x \<in> set cells" and inv: "grid_inv n st"
    obtain i j where ij: "x = (i, j)" by (cases x)
    with x have "i < n" "j < n" by (auto simp: cells_def)
    from grid_cell_ok [OF inv this] show "\<exists>st' ls. grid_cell n x st = Inr st' \<and> grid_inv n st'
        \<and> hosts (fst st') = hosts (fst st)
        \<and> links (fst st') = links (fst st) @ ls
        \<and> length ls = (case x of (i, j) \<Rightarrow>
              (if j < n - 1 then 1 else 0) + (if i < n - 1 then 1 else 0))
        \<and> list_all (\<lambda>l. hd (src l) = CHR ''s'') ls"
      by (simp add: ij)
  qed
  have fe: "\<exists>st' ls. for_each (grid_cell n) cells st1 = Inr st' \<and> grid_inv n st'
      \<and> hosts (fst st') = hosts (fst st1)
      \<and> links (fst st') = links (fst st1) @ ls
      \<and> length ls = sum_list (map (\<lambda>x. case x of (i, j) \<Rightarrow>
              (if j < n - 1 then 1 else 0) + (if i < n - 1 then 1 else 0)) cells)
      \<and> list_all (\<lambda>l. hd (src l) = CHR ''s'') ls"
  proof (rule for_each_links)
    show "grid_inv n st1" by (rule i1)
  next
    fix x st
    assume "x \<in> set cells" and "grid_inv n st"
    then show "\<exists>st' ls. grid_cell n x st = Inr st' \<and> grid_inv n st'
        \<and> hosts (fst st') = hosts (fst st)
        \<and> links (fst st') = links (fst st) @ ls
        \<and> length ls = (case x of (i, j) \<Rightarrow>
              (if j < n - 1 then 1 else 0) + (if i < n - 1 then 1 else 0))
        \<and> list_all (\<lambda>l. hd (src l) = CHR ''s'') ls"
      by (rule step)
  qed
  from fe
  obtain st2 ls where
    g: "for_each (grid_cell n) cells st1 = Inr st2" and i2: "grid_inv n st2"
    and h2: "hosts (fst st2) = hosts (fst st1)"
    and l2: "links (fst st2) = links (fst st1) @ ls"
    and len: "length ls = sum_list (map (\<lambda>(i, j). (if j < n - 1 then 1 else 0)
                + (if i < n - 1 then 1 else 0)) cells)"
    and q: "list_all (\<lambda>l. hd (src l) = CHR ''s'') ls"
    by (elim exE conjE) (rule that; assumption)
  obtain topo pc where st2: "st2 = (topo, pc)" by (cases st2)
  have len': "length ls = 2 * n * (n - 1)"
    using len grid_links [of n] by (simp add: cells_def)
  have r: "generate_topology_info 4 n = Inr topo" unfolding gen c using g st2 by simp
  have k: "map fst (switches topo) = map sname [1..<n * n + 1]"
    and d: "map (\<lambda>(name, sw). dpid sw) (switches topo) = map int [1..<n * n + 1]"
    using i2 by (simp_all add: grid_inv_def st2)
  have dk: "distinct (map fst (switches topo))" unfolding k by (rule distinct_snames)
  have ln: "length (switches topo) = n * n"
    using arg_cong [OF k, of length] by simp
  have hk2: "map fst (hosts topo) = [''h1'', ''h2'', ''h3'', ''h4'']"
    and hc2: "map (\<lambda>(name, h). connected_to h) (hosts topo)
         = [sname 1, sname n, sname (n * (n - 1) + 1), sname (n * n)]"
    using hk hc h2 by (simp_all add: st2)
  have lt: "links topo =
          [\<lparr>src = ''h1'', dst = sname 1, port = p1\<rparr>, \<lparr>src = ''h2'', dst = sname n, port = p2\<rparr>,
           \<lparr>src = ''h3'', dst = sname (n * (n - 1) + 1), port = p3\<rparr>,
           \<lparr>src = ''h4'', dst = sname (n * n), port = p4\<rparr>] @ ls"
    using l1 l2 by (simp add: st2)
  have a: "length (links topo) = 4 + 2 * n * (n - 1)" unfolding lt using len' by simp
  have b: "map (\<lambda>l. (src l, dst l)) (take 4 (links topo))
         = [(''h1'', sname 1), (''h2'', sname n), (''h3'', sname (n * (n - 1) + 1)),
            (''h4'', sname (n * n))]"
    unfolding lt by simp
  have e: "list_all (\<lambda>l. hd (src l) = CHR ''s'') (drop 4 (links topo))"
    unfolding lt using q by simp
  show ?thesis
    by (rule exI [of _ topo]) (intro conjI r k dk d ln hk2 hc2 corners_distinct [OF n] a b e)
qed

text \<open>
  C8. The grid-topology builder writes no descriptor. For every grid size \<open>n \<ge> 1\<close>
  (the default 15 included) \<^verbatim>\<open>GridTopo.build\<close> raises AttributeError in the first round of
  its loop over the corners, where it reads \<^verbatim>\<open>host.name\<close> of a host that is a string;
  for \<open>n = 0\<close> it raises IndexError. In both cases \<^verbatim>\<open>generate_topology_info\<close> is not
  called.
\<close>

theorem grid_build_raises:
  "grid_build n = Inl (if n = 0 then IndexError else AttributeError)"
proof (cases "n = 0")
  case True
  then show ?thesis by (simp add: grid_build_def)
next
  case False
  define pc :: "(string \<times> int) list" where "pc = map (\<lambda>i. (sname (i + 1), 1)) [0..<n * n]"
  have "1 \<le> n * n" using False by (cases n) simp_all
  then have "sname 1 \<in> set (map sname [1..<n * n + 1])" by (intro sname_mem) simp_all
  then have "''s1'' \<in> set (map fst pc)" unfolding pc_def initial_names sname_1 .
  then obtain p where p: "map_of pc ''s1'' = Some p" using map_of_present by fastforce
  have "corner_link (''h1'', ''s1'') pc = Inl AttributeError"
    using p by (simp add: corner_link_def attr_name_def)
  moreover have "dict_of pc = pc" unfolding pc_def by (rule initial_dict)
  ultimately show ?thesis
    using False unfolding grid_build_def Let_def pc_def [symmetric] by simp
qed

end
